theory Spec2Isabelle
  imports Complex_Main
begin

section \<open>Vectors\<close>

text \<open>
  The simulation of \<^verbatim>\<open>src/game.js\<close> (class \<^verbatim>\<open>TowerDefenseGame\<close> and the global
  \<^verbatim>\<open>startNextWave\<close>) computes on \<^verbatim>\<open>BABYLON.Vector3\<close> values. The library is not part
  of the repository; its operations are modelled by their documented meaning, with
  JavaScript numbers read as real numbers (rounding is not modelled). Counters that
  only ever hold integers are \<open>int\<close>, or \<open>nat\<close> where the source only counts up
  from zero.
\<close>

datatype vec3 = Vector3 (vx: real) (vy: real) (vz: real)

definition subtract :: "vec3 \<Rightarrow> vec3 \<Rightarrow> vec3" where
  "subtract a b = Vector3 (vx a - vx b) (vy a - vy b) (vz a - vz b)"

definition add :: "vec3 \<Rightarrow> vec3 \<Rightarrow> vec3" where
  "add a b = Vector3 (vx a + vx b) (vy a + vy b) (vz a + vz b)"

definition scale :: "vec3 \<Rightarrow> real \<Rightarrow> vec3" where
  "scale a k = Vector3 (vx a * k) (vy a * k) (vz a * k)"

definition lengthSquared :: "vec3 \<Rightarrow> real" where
  "lengthSquared a = vx a * vx a + vy a * vy a + vz a * vz a"

definition vlength :: "vec3 \<Rightarrow> real" where
  "vlength a = sqrt (lengthSquared a)"

text \<open>\<^verbatim>\<open>normalize()\<close> leaves a vector of length 0 or 1 as it is and scales any other
  vector by the inverse of its length.\<close>

definition normalize :: "vec3 \<Rightarrow> vec3" where
  "normalize a =
     (let len = vlength a in
      if len = 0 \<or> len = 1 then a else scale a (1 / len))"

definition Distance :: "vec3 \<Rightarrow> vec3 \<Rightarrow> real" where
  "Distance a b = vlength (subtract a b)"

definition Lerp :: "vec3 \<Rightarrow> vec3 \<Rightarrow> real \<Rightarrow> vec3" where
  "Lerp start finish amount =
     Vector3 (vx start + (vx finish - vx start) * amount)
             (vy start + (vy finish - vy start) * amount)
             (vz start + (vz finish - vz start) * amount)"

text \<open>The assignment \<^verbatim>\<open>v.y = c\<close> on a vector.\<close>

definition setY :: "vec3 \<Rightarrow> real \<Rightarrow> vec3" where
  "setY a c = Vector3 (vx a) c (vz a)"


section \<open>Data model\<close>

text \<open>
  \<^verbatim>\<open>towerTypes\<close> (game.js, lines 79-85). The three weapon entries carry damage, range
  and fire rate; \<^verbatim>\<open>colony\<close> and \<^verbatim>\<open>playerAttack\<close> carry a cost only. The key held by
  \<^verbatim>\<open>selectedTowerType\<close> is an \<open>itemKind\<close>; a built tower has a \<open>towerKind\<close>.
\<close>

datatype towerKind = basic | missile | laser

datatype itemKind = Tower towerKind | colony | playerAttack

fun cost :: "itemKind \<Rightarrow> int" where
  "cost (Tower basic) = 40"
| "cost (Tower missile) = 85"
| "cost (Tower laser) = 130"
| "cost colony = 200"
| "cost playerAttack = 1000"

fun damage :: "towerKind \<Rightarrow> int" where
  "damage basic = 25"
| "damage missile = 60"
| "damage laser = 40"

fun towerRange :: "towerKind \<Rightarrow> real" where
  "towerRange basic = 10"
| "towerRange missile = 12"
| "towerRange laser = 18"

fun fireRate :: "towerKind \<Rightarrow> int" where
  "fireRate basic = 900"
| "fireRate missile = 1400"
| "fireRate laser = 350"

text \<open>
  An attacker (\<^verbatim>\<open>enemyData\<close>, lines 775-787). \<open>enemy_id\<close> stands for the identity of
  the JavaScript object: projectiles refer to their target through it. \<open>mesh_position\<close>
  is \<^verbatim>\<open>enemy.mesh.position\<close>. Every removal from \<^verbatim>\<open>this.enemies\<close> in the source
  disposes the mesh in the same step, so "the mesh is disposed" is "the id is no longer
  in the registry". \<open>enemy_target\<close> is the base position of the tower the attacker
  aims at: towers never move and are never disposed, and the position is all that is
  read through that reference. \<open>reward\<close> is a natural number: the source only ever
  assigns \<^verbatim>\<open>baseReward + this.wave * 2\<close> to it, with the wave counted up from 0.
\<close>

record enemy =
  enemy_id :: nat
  mesh_position :: vec3
  health :: int
  maxHealth :: int
  speed :: real
  pathIndex :: nat
  pathProgress :: real
  reward :: nat
  lastShot :: int
  enemy_fireRate :: int
  enemy_range :: real
  enemy_target :: "vec3 option"

text \<open>
  A defender (lines 686-693). \<open>tower_target\<close> is the attacker chosen by the current
  pass of \<^verbatim>\<open>updateTowers\<close>; the source reads the reference only inside that pass,
  right after it is assigned from the registry.
\<close>

record tower =
  base_position :: vec3
  tower_type :: towerKind
  lastFired :: int
  tower_target :: "enemy option"

text \<open>Projectiles of defenders (lines 1076-1084) and of attackers (lines 1106-1112).\<close>

record projectile =
  proj_position :: vec3
  direction :: vec3
  proj_speed :: real
  proj_damage :: int
  proj_target :: nat
  life :: nat
  proj_type :: towerKind

record enemyProjectile =
  eproj_position :: vec3
  eproj_direction :: vec3
  eproj_speed :: real
  eproj_target :: vec3
  eproj_life :: nat

text \<open>
  The \<^verbatim>\<open>async\<close> methods of the source run up to their first \<^verbatim>\<open>await\<close> (a model
  load) and finish later, when the load completes. What is left to run is a
  continuation; the state keeps the continuations that have not run yet.
  \<^item> \<open>PendingColony position cost\<close>: \<^verbatim>\<open>placeTower\<close> waiting in \<^verbatim>\<open>createColony\<close>;
  \<^item> \<open>PendingTower position type cost\<close>: \<^verbatim>\<open>placeTower\<close> waiting in \<^verbatim>\<open>createTower\<close>;
  \<^item> \<open>PendingSpawn baseHealth baseSpeed baseReward\<close>: \<^verbatim>\<open>spawnEnemy\<close> waiting for
    the enemy model, with the base values it chose before waiting;
  \<^item> \<open>PendingAttack\<close>: \<^verbatim>\<open>activatePlayerAttack\<close> waiting for the player model and
    the fly-over animation to end.
\<close>

datatype pending =
    PendingColony vec3 int
  | PendingTower vec3 towerKind int
  | PendingSpawn int real nat
  | PendingAttack

text \<open>Particle effects the simulation starts (sounds are left out).\<close>

datatype effect =
    HitParticles vec3
  | ExplosionParticles vec3
  | EnemyBombParticles vec3

text \<open>
  The game object. \<open>nextWaveBtnDisabled\<close> is the \<^verbatim>\<open>disabled\<close> attribute of the
  next-wave button, which the source sets and clears. \<open>reloadRequested\<close> records that
  the game-over branch ran (\<^verbatim>\<open>alert\<close>, then \<^verbatim>\<open>location.reload()\<close>; the script goes on
  until the running frame callback returns). \<open>nextId\<close> allocates attacker identities.
\<close>

record game =
  gold :: int
  lives :: int
  score :: int
  wave :: nat
  enemiesInWave :: nat
  enemiesSpawned :: nat
  selectedTowerType :: itemKind
  gameStarted :: bool
  isPaused :: bool
  towers :: "tower list"
  enemies :: "enemy list"
  projectiles :: "projectile list"
  enemyProjectiles :: "enemyProjectile list"
  colonies :: "vec3 list"
  path :: "vec3 list"
  pending :: "pending list"
  effects :: "effect list"
  nextWaveBtnDisabled :: bool
  reloadRequested :: bool
  nextId :: nat

text \<open>\<^verbatim>\<open>createEnhancedPath\<close> (lines 346-373): nineteen waypoints, each lifted to
  \<^verbatim>\<open>y = 0.15\<close>.\<close>

definition pathPoints :: "vec3 list" where
  "pathPoints =
     [Vector3 (-400) 0 0, Vector3 (-300) 0 100, Vector3 (-100) 0 150,
      Vector3 100 0 100, Vector3 300 0 0, Vector3 400 0 (-100),
      Vector3 200 0 (-150), Vector3 0 0 (-100), Vector3 (-200) 0 0,
      Vector3 (-300) 0 100, Vector3 (-100) 0 150, Vector3 100 0 100,
      Vector3 300 0 0, Vector3 400 0 (-100), Vector3 200 0 (-150),
      Vector3 0 0 (-100), Vector3 (-200) 0 0, Vector3 (-400) 0 100,
      Vector3 (-500) 0 200]"

definition createEnhancedPath :: "vec3 list" where
  "createEnhancedPath = map (\<lambda>point. setY point 0.15) pathPoints"

text \<open>The state once the constructor (lines 16-24, 60-65) and
  \<^verbatim>\<open>startGameAfterVideo\<close> have run: the path exists and \<^verbatim>\<open>setupUI\<close> has selected the
  basic tower.\<close>

definition initialGame :: game where
  "initialGame =
     \<lparr>gold = 600, lives = 25, score = 0, wave = 0, enemiesInWave = 4,
      enemiesSpawned = 0, selectedTowerType = Tower basic, gameStarted = False,
      isPaused = False, towers = [], enemies = [], projectiles = [],
      enemyProjectiles = [], colonies = [], path = createEnhancedPath,
      pending = [], effects = [], nextWaveBtnDisabled = False,
      reloadRequested = False, nextId = 0\<rparr>"


section \<open>Wave director\<close>

text \<open>\<^verbatim>\<open>startNextWave\<close> (lines 1248-1291); music, lore audio and weather are left
  out.\<close>

definition startNextWave :: "game \<Rightarrow> game" where
  "startNextWave s =
     (if isPaused s then s
      else s\<lparr>wave := wave s + 1,
             enemiesInWave := min (3 + (wave s + 1) * 2) 25,
             enemiesSpawned := 0,
             gameStarted := True,
             nextWaveBtnDisabled := True\<rparr>)"

text \<open>\<^verbatim>\<open>checkWaveComplete\<close> (lines 1200-1213).\<close>

definition checkWaveComplete :: "game \<Rightarrow> game" where
  "checkWaveComplete s =
     (if gameStarted s \<and> enemiesSpawned s \<ge> enemiesInWave s \<and> enemies s = [] then
        let waveBonus = 25 + int (wave s) * 10 in
        s\<lparr>nextWaveBtnDisabled := False,
          gameStarted := False,
          gold := gold s + waveBonus,
          score := score s + waveBonus * 5\<rparr>
      else s)"

text \<open>\<^verbatim>\<open>togglePause\<close> (lines 492-508).\<close>

definition togglePause :: "game \<Rightarrow> game" where
  "togglePause s = s\<lparr>isPaused := \<not> isPaused s\<rparr>"


section \<open>Placement and the player attack\<close>

text \<open>\<^verbatim>\<open>activatePlayerAttack\<close> (lines 90-144), up to its first \<^verbatim>\<open>await\<close>: nothing
  happens when the game is paused or no attacker is alive; otherwise the strike is
  left pending until the model is loaded and the animation has ended.\<close>

definition activatePlayerAttack :: "game \<Rightarrow> game" where
  "activatePlayerAttack s =
     (if isPaused s then s
      else if enemies s = [] then s
      else s\<lparr>pending := pending s @ [PendingAttack]\<rparr>)"

text \<open>The callback at the end of the animation (lines 126-143): every attacker, last
  to first, gets an explosion, is removed and pays its reward.\<close>

definition strikeEnemy :: "enemy \<Rightarrow> game \<Rightarrow> game" where
  "strikeEnemy e s =
     s\<lparr>effects := effects s @ [ExplosionParticles (mesh_position e)],
       gold := gold s + int (reward e),
       score := score s + int (reward e) * 15\<rparr>"

definition playerAttackStrike :: "game \<Rightarrow> game" where
  "playerAttackStrike s = foldr strikeEnemy (enemies s) (s\<lparr>enemies := []\<rparr>)"

text \<open>The three distance checks of \<^verbatim>\<open>placeTower\<close> (lines 586-610): each loop clears
  \<^verbatim>\<open>validPosition\<close> at the first element that is too close.\<close>

definition validPosition :: "vec3 \<Rightarrow> game \<Rightarrow> bool" where
  "validPosition position s =
     (\<not> list_ex (\<lambda>t. Distance position (base_position t) < 6) (towers s) \<and>
      \<not> list_ex (\<lambda>c. Distance position c < 10) (colonies s) \<and>
      \<not> list_ex (\<lambda>pathPoint. Distance position pathPoint < 4) (path s))"

text \<open>Which branch of \<^verbatim>\<open>placeTower\<close> ran; the source reports the two rejections on
  the console.\<close>

datatype placement = Ignored | InsufficientFunds | InvalidPlacement | Accepted

text \<open>
  \<^verbatim>\<open>placeTower\<close> (lines 581-638), up to its first \<^verbatim>\<open>await\<close>. For a colony and for a
  tower the source waits for the model before it pushes the structure and debits the
  cost, so both are left to the continuation; for the player attack the cost is
  debited at once, before \<^verbatim>\<open>activatePlayerAttack\<close> is entered.
\<close>

definition placeTower :: "vec3 \<Rightarrow> game \<Rightarrow> placement \<times> game" where
  "placeTower position s =
     (if isPaused s then (Ignored, s)
      else
        let itemCost = cost (selectedTowerType s) in
        if gold s \<ge> itemCost then
          if validPosition position s then
            (case selectedTowerType s of
               colony \<Rightarrow>
                 (Accepted, s\<lparr>pending := pending s @ [PendingColony position itemCost]\<rparr>)
             | playerAttack \<Rightarrow>
                 (Accepted, activatePlayerAttack (s\<lparr>gold := gold s - itemCost\<rparr>))
             | Tower ty \<Rightarrow>
                 (Accepted, s\<lparr>pending := pending s @ [PendingTower position ty itemCost]\<rparr>))
          else (InvalidPlacement, s)
        else (InsufficientFunds, s))"

text \<open>\<^verbatim>\<open>placeTowerAtCrosshair\<close> (lines 510-535): \<open>hit\<close> is the point the camera ray picks
  on the ground, if any.\<close>

definition placeTowerAtCrosshair :: "vec3 option \<Rightarrow> game \<Rightarrow> game" where
  "placeTowerAtCrosshair hit s =
     (if isPaused s then s
      else case hit of None \<Rightarrow> s | Some pickedPoint \<Rightarrow> snd (placeTower pickedPoint s))"

text \<open>The global \<^verbatim>\<open>selectTowerType\<close> (lines 1244-1246) over the method of the same
  name (lines 565-579).\<close>

definition selectTowerType :: "itemKind \<Rightarrow> vec3 option \<Rightarrow> game \<Rightarrow> game" where
  "selectTowerType ty hit s =
     (if isPaused s then s
      else
        let s1 = s\<lparr>selectedTowerType := ty\<rparr> in
        if ty = playerAttack then placeTowerAtCrosshair hit s1 else s1)"

text \<open>\<^verbatim>\<open>createTower\<close> (lines 666-695), after the model is loaded.\<close>

definition createTower :: "vec3 \<Rightarrow> towerKind \<Rightarrow> tower" where
  "createTower position ty =
     \<lparr>base_position = setY position 1, tower_type = ty, lastFired = 0,
      tower_target = None\<rparr>"

text \<open>\<^verbatim>\<open>Colony.loadModel\<close> puts the colony mesh at the position, at height 0.1.\<close>

definition createColony :: "vec3 \<Rightarrow> vec3" where
  "createColony position = setY position 0.1"


section \<open>Spawning\<close>

text \<open>\<^verbatim>\<open>spawnEnemy\<close> (lines 755-794), up to the \<^verbatim>\<open>await\<close>: the base values depend on
  the wave at this moment.\<close>

definition spawnEnemy :: "game \<Rightarrow> game" where
  "spawnEnemy s =
     (if path s = [] then s
      else if wave s > 1 then s\<lparr>pending := pending s @ [PendingSpawn 100 0.0025 25]\<rparr>
      else s\<lparr>pending := pending s @ [PendingSpawn 60 0.002 15]\<rparr>)"

text \<open>\<^verbatim>\<open>spawnEnemies\<close> (lines 746-753); \<open>rnd\<close> is the value of \<^verbatim>\<open>Math.random()\<close>.\<close>

definition spawnEnemies :: "real \<Rightarrow> game \<Rightarrow> game" where
  "spawnEnemies rnd s =
     (if \<not> gameStarted s \<or> enemiesSpawned s \<ge> enemiesInWave s \<or> isPaused s then s
      else if rnd < 0.008 then spawnEnemy s
      else s)"

text \<open>The rest of \<^verbatim>\<open>spawnEnemy\<close>, after the model is loaded (lines 771-791): the wave
  is read again here.\<close>

definition enemyData :: "nat \<Rightarrow> vec3 \<Rightarrow> nat \<Rightarrow> int \<Rightarrow> real \<Rightarrow> nat \<Rightarrow> enemy" where
  "enemyData ident start w baseHealth baseSpeed baseReward =
     \<lparr>enemy_id = ident, mesh_position = setY start 1,
      health = baseHealth + int w * 20, maxHealth = baseHealth + int w * 20,
      speed = baseSpeed + real w * 0.0004, pathIndex = 0, pathProgress = 0,
      reward = baseReward + w * 2, lastShot = 0, enemy_fireRate = 2000,
      enemy_range = 15, enemy_target = None\<rparr>"


section \<open>Continuations\<close>

text \<open>What runs when a pending load completes. A spawn on an empty path cannot be
  pending (\<open>spawnEnemy\<close> returns before the load); there the source would fail on
  \<^verbatim>\<open>this.path[0].clone()\<close> and nothing more of it would run.\<close>

fun resumePending :: "pending \<Rightarrow> game \<Rightarrow> game" where
  "resumePending (PendingColony position itemCost) s =
     s\<lparr>colonies := colonies s @ [createColony position], gold := gold s - itemCost\<rparr>"
| "resumePending (PendingTower position ty itemCost) s =
     s\<lparr>towers := towers s @ [createTower position ty], gold := gold s - itemCost\<rparr>"
| "resumePending (PendingSpawn baseHealth baseSpeed baseReward) s =
     (case path s of
        [] \<Rightarrow> s
      | start # _ \<Rightarrow>
          s\<lparr>enemies := enemies s @
                [enemyData (nextId s) start (wave s) baseHealth baseSpeed baseReward],
            enemiesSpawned := enemiesSpawned s + 1,
            nextId := nextId s + 1\<rparr>)"
| "resumePending PendingAttack s = playerAttackStrike s"

text \<open>The \<open>i\<close>-th pending load completes, or fails (the continuation never runs).\<close>

definition resume :: "nat \<Rightarrow> game \<Rightarrow> game" where
  "resume i s =
     (if i < length (pending s) then
        resumePending (pending s ! i)
          (s\<lparr>pending := take i (pending s) @ drop (Suc i) (pending s)\<rparr>)
      else s)"

definition abandon :: "nat \<Rightarrow> game \<Rightarrow> game" where
  "abandon i s = s\<lparr>pending := take i (pending s) @ drop (Suc i) (pending s)\<rparr>"


section \<open>Attackers\<close>

text \<open>\<^verbatim>\<open>fireEnemyProjectile\<close> (lines 1087-1113): a cosmetic projectile towards the
  targeted tower.\<close>

definition fireEnemyProjectile :: "enemy \<Rightarrow> game \<Rightarrow> game" where
  "fireEnemyProjectile e s =
     (case enemy_target e of
        None \<Rightarrow> s
      | Some targetPosition \<Rightarrow>
          if isPaused s then s
          else
            let position = add (mesh_position e) (Vector3 0 0.5 0) in
            s\<lparr>enemyProjectiles := enemyProjectiles s @
                 [\<lparr>eproj_position = position,
                   eproj_direction = normalize (subtract targetPosition position),
                   eproj_speed = 1.5, eproj_target = targetPosition,
                   eproj_life = 0\<rparr>]\<rparr>)"

text \<open>The target search of an attacker (lines 995-1005): the first tower strictly
  closer than everything before it, starting from the attacker's range.\<close>

fun closestTower :: "vec3 \<Rightarrow> tower list \<Rightarrow> tower option \<Rightarrow> real \<Rightarrow> tower option" where
  "closestTower position [] target closestDist = target"
| "closestTower position (t # ts) target closestDist =
     (let dist = Distance position (base_position t) in
      if dist < closestDist then closestTower position ts (Some t) dist
      else closestTower position ts target closestDist)"

text \<open>The first part of the loop body of \<^verbatim>\<open>updateEnemies\<close> (lines 932-950), for an
  attacker that is not at the final waypoint: advance along the path.\<close>

definition moveAlongPath :: "vec3 list \<Rightarrow> enemy \<Rightarrow> enemy" where
  "moveAlongPath pth e =
     (let e1 = e\<lparr>pathProgress := pathProgress e + speed e\<rparr>;
          e2 = (if pathProgress e1 \<ge> 1
                then e1\<lparr>pathIndex := pathIndex e1 + 1, pathProgress := 0\<rparr> else e1)
      in if int (pathIndex e2) < int (length pth) - 1
         then e2\<lparr>mesh_position :=
                  setY (Lerp (pth ! pathIndex e2) (pth ! (pathIndex e2 + 1)) (pathProgress e2)) 1\<rparr>
         else e2)"

text \<open>The counter-fire part of the loop body (lines 994-1012); the attacker stays in
  the registry.\<close>

definition enemyShoot :: "int \<Rightarrow> enemy \<Rightarrow> game \<Rightarrow> game" where
  "enemyShoot currentTime e s =
     (let e1 = e\<lparr>enemy_target :=
                   map_option base_position
                     (closestTower (mesh_position e) (towers s) None (enemy_range e))\<rparr>
      in if enemy_target e1 \<noteq> None \<and> currentTime - lastShot e1 > enemy_fireRate e1
         then (fireEnemyProjectile e1 s)
                \<lparr>enemies := e1\<lparr>lastShot := currentTime\<rparr> # enemies (fireEnemyProjectile e1 s)\<rparr>
         else s\<lparr>enemies := e1 # enemies s\<rparr>)"

text \<open>
  The loop body of \<^verbatim>\<open>updateEnemies\<close> (lines 929-1013) for one attacker. The state
  holds, in \<open>enemies\<close>, the attackers behind this one that the loop has kept; an
  attacker that is not put back is spliced out.
  \<^item> At the final waypoint (\<^verbatim>\<open>else\<close> branch, lines 951-965): a life is lost, the
    attacker is removed, and at no lives left the game-over branch runs.
  \<^item> Otherwise it moves; then, if its health is at most 0, it pays its reward and is
    removed (lines 968-983); else it may shoot.
\<close>

definition enemyStep :: "int \<Rightarrow> enemy \<Rightarrow> game \<Rightarrow> game" where
  "enemyStep currentTime e s =
     (if int (pathIndex e) < int (length (path s)) - 1 then
        let e1 = moveAlongPath (path s) e in
        if health e1 \<le> 0 then
          s\<lparr>gold := gold s + int (reward e1), score := score s + int (reward e1) * 15\<rparr>
        else enemyShoot currentTime e1 s
      else
        s\<lparr>lives := lives s - 1,
          reloadRequested := (reloadRequested s \<or> lives s - 1 \<le> 0)\<rparr>)"

text \<open>\<^verbatim>\<open>updateEnemies\<close> (lines 923-1014). The source walks the array from the last
  index down and splices; \<open>foldr\<close> runs the body on the last attacker first and
  rebuilds the registry in the same order.\<close>

definition updateEnemies :: "int \<Rightarrow> game \<Rightarrow> game" where
  "updateEnemies currentTime s =
     (if isPaused s then s
      else foldr (enemyStep currentTime) (enemies s) (s\<lparr>enemies := []\<rparr>))"


section \<open>Defenders\<close>

text \<open>\<^verbatim>\<open>fireProjectile\<close> (lines 1049-1085): the projectile starts half a unit above
  the turret; its direction is fixed here.\<close>

definition fireProjectile :: "tower \<Rightarrow> game \<Rightarrow> game" where
  "fireProjectile twr s =
     (case tower_target twr of
        None \<Rightarrow> s
      | Some tgt \<Rightarrow>
          if isPaused s then s
          else
            let position = add (base_position twr) (Vector3 0 0.5 0) in
            s\<lparr>projectiles := projectiles s @
                 [\<lparr>proj_position = position,
                   direction = normalize (subtract (mesh_position tgt) position),
                   proj_speed = 2.2, proj_damage = damage (tower_type twr),
                   proj_target = enemy_id tgt, life = 0,
                   proj_type = tower_type twr\<rparr>]\<rparr>)"

text \<open>The target search of a defender (lines 1022-1032).\<close>

fun closestEnemy :: "vec3 \<Rightarrow> enemy list \<Rightarrow> enemy option \<Rightarrow> real \<Rightarrow> enemy option" where
  "closestEnemy position [] target closestDist = target"
| "closestEnemy position (e # es) target closestDist =
     (let dist = Distance position (mesh_position e) in
      if dist < closestDist then closestEnemy position es (Some e) dist
      else closestEnemy position es target closestDist)"

text \<open>The loop body of \<^verbatim>\<open>updateTowers\<close> (lines 1021-1046); the state holds, in
  \<open>towers\<close>, the towers before this one.\<close>

definition towerStep :: "int \<Rightarrow> tower \<Rightarrow> game \<Rightarrow> game" where
  "towerStep currentTime twr s =
     (let t1 = twr\<lparr>tower_target :=
                    closestEnemy (base_position twr) (enemies s) None
                      (towerRange (tower_type twr))\<rparr>
      in if tower_target t1 \<noteq> None \<and> currentTime - lastFired t1 > fireRate (tower_type t1)
         then (fireProjectile t1 s)
                \<lparr>towers := towers (fireProjectile t1 s) @ [t1\<lparr>lastFired := currentTime\<rparr>]\<rparr>
         else s\<lparr>towers := towers s @ [t1]\<rparr>)"

fun towerLoop :: "int \<Rightarrow> tower list \<Rightarrow> game \<Rightarrow> game" where
  "towerLoop currentTime [] s = s"
| "towerLoop currentTime (twr # rest) s = towerLoop currentTime rest (towerStep currentTime twr s)"

definition updateTowers :: "int \<Rightarrow> game \<Rightarrow> game" where
  "updateTowers currentTime s =
     (if isPaused s then s else towerLoop currentTime (towers s) (s\<lparr>towers := []\<rparr>))"


section \<open>Projectiles\<close>

text \<open>Lines 1120-1121: one step along the fixed direction, one tick older.\<close>

definition advance :: "projectile \<Rightarrow> projectile" where
  "advance p =
     p\<lparr>proj_position := add (proj_position p) (scale (direction p) (proj_speed p)),
       life := life p + 1\<rparr>"

text \<open>The hit test (lines 1124-1125): the target is still in the registry and the
  projectile is closer than 1.8 to where the target is now. The result is the target
  that is hit, if any.\<close>

definition hitTarget :: "enemy list \<Rightarrow> projectile \<Rightarrow> enemy option" where
  "hitTarget es p =
     (case find (\<lambda>e. enemy_id e = proj_target p) es of
        None \<Rightarrow> None
      | Some e \<Rightarrow>
          if Distance (proj_position p) (mesh_position e) < 1.8 then Some e else None)"

text \<open>\<^verbatim>\<open>proj.target.health -= proj.damage\<close> on the object the projectile refers to.\<close>

fun applyDamage :: "nat \<Rightarrow> int \<Rightarrow> enemy list \<Rightarrow> enemy list" where
  "applyDamage ident dmg [] = []"
| "applyDamage ident dmg (e # es) =
     (if enemy_id e = ident then e\<lparr>health := health e - dmg\<rparr> # es
      else e # applyDamage ident dmg es)"

text \<open>The loop body of \<^verbatim>\<open>updateProjectiles\<close> (lines 1119-1144); the state holds, in
  \<open>projectiles\<close>, the projectiles behind this one that are still flying. On a hit the
  target is damaged, hit particles start at the target (and an explosion at the
  projectile, for a missile) and the projectile is removed; a projectile older than
  100 ticks is removed; any other flies on.\<close>

definition projectileStep :: "projectile \<Rightarrow> game \<Rightarrow> game" where
  "projectileStep p0 s =
     (let p = advance p0 in
      case hitTarget (enemies s) p of
        Some tgt \<Rightarrow>
          s\<lparr>enemies := applyDamage (proj_target p) (proj_damage p) (enemies s),
            effects := effects s @
              (HitParticles (mesh_position tgt) #
               (if proj_type p = missile then [ExplosionParticles (proj_position p)] else []))\<rparr>
      | None \<Rightarrow>
          if life p > 100 then s
          else s\<lparr>projectiles := p # projectiles s\<rparr>)"

definition updateProjectiles :: "game \<Rightarrow> game" where
  "updateProjectiles s =
     (if isPaused s then s
      else foldr projectileStep (projectiles s) (s\<lparr>projectiles := []\<rparr>))"

text \<open>\<^verbatim>\<open>updateEnemyProjectiles\<close> (lines 1148-1171): the same loop for the attackers'
  projectiles, which damage nothing and live 150 ticks.\<close>

definition advanceEnemyProjectile :: "enemyProjectile \<Rightarrow> enemyProjectile" where
  "advanceEnemyProjectile p =
     p\<lparr>eproj_position := add (eproj_position p) (scale (eproj_direction p) (eproj_speed p)),
       eproj_life := eproj_life p + 1\<rparr>"

definition enemyProjectileStep :: "enemyProjectile \<Rightarrow> game \<Rightarrow> game" where
  "enemyProjectileStep p0 s =
     (let p = advanceEnemyProjectile p0 in
      if Distance (eproj_position p) (eproj_target p) < 1.8 then
        s\<lparr>effects := effects s @ [EnemyBombParticles (eproj_position p)]\<rparr>
      else if eproj_life p > 150 then s
      else s\<lparr>enemyProjectiles := p # enemyProjectiles s\<rparr>)"

definition updateEnemyProjectiles :: "game \<Rightarrow> game" where
  "updateEnemyProjectiles s =
     (if isPaused s then s
      else foldr enemyProjectileStep (enemyProjectiles s) (s\<lparr>enemyProjectiles := []\<rparr>))"


section \<open>The frame and the commands\<close>

text \<open>The callback of \<^verbatim>\<open>startGameLoop\<close> (lines 703-715), without the camera.
  \<open>tE\<close> and \<open>tT\<close> are the two readings of \<^verbatim>\<open>Date.now()\<close>, in \<^verbatim>\<open>updateEnemies\<close> and in
  \<^verbatim>\<open>updateTowers\<close>.\<close>

definition tick :: "int \<Rightarrow> int \<Rightarrow> real \<Rightarrow> game \<Rightarrow> game" where
  "tick tE tT rnd s =
     (if isPaused s then s
      else checkWaveComplete (spawnEnemies rnd (updateEnemyProjectiles
             (updateProjectiles (updateTowers tT (updateEnemies tE s))))))"

text \<open>Everything that can happen to the game: the commands of the player, a frame,
  and the completion or failure of a pending load.\<close>

datatype command =
    StartNextWave
  | TogglePause
  | SelectTowerType itemKind "vec3 option"
  | PlaceTowerAtCrosshair "vec3 option"
  | Tick int int real
  | Resume nat
  | Abandon nat

fun exec :: "command \<Rightarrow> game \<Rightarrow> game" where
  "exec StartNextWave s = startNextWave s"
| "exec TogglePause s = togglePause s"
| "exec (SelectTowerType ty hit) s = selectTowerType ty hit s"
| "exec (PlaceTowerAtCrosshair hit) s = placeTowerAtCrosshair hit s"
| "exec (Tick tE tT rnd) s = tick tE tT rnd s"
| "exec (Resume i) s = resume i s"
| "exec (Abandon i) s = abandon i s"

text \<open>A run: the commands of the list, first to last.\<close>

fun run :: "command list \<Rightarrow> game \<Rightarrow> game" where
  "run [] s = s"
| "run (c # cs) s = run cs (exec c s)"


section \<open>States and runs used as examples\<close>

text \<open>Wave 1 is running and one attacker has been spawned: the wave is started, a
  frame rolls a spawn, and the enemy model finishes loading.\<close>

definition midWaveOne :: game where
  "midWaveOne = run [StartNextWave, Tick 0 0 0, Resume 0] initialGame"

text \<open>Wave 1 with all five attackers spawned and none alive.\<close>

definition waveOneSpawned :: game where
  "waveOneSpawned = (startNextWave initialGame)\<lparr>enemiesSpawned := 5\<rparr>"

text \<open>The initial game with 30 gold only, and with 1000 gold and the player attack
  selected.\<close>

definition poorGame :: game where
  "poorGame = initialGame\<lparr>gold := 30\<rparr>"

definition richGame :: game where
  "richGame = initialGame\<lparr>gold := 1000, selectedTowerType := playerAttack\<rparr>"


section \<open>Notions used to state the properties\<close>

text \<open>The test of \<^verbatim>\<open>updateEnemies\<close> (line 932) fails: the attacker's path index has
  reached the final waypoint.\<close>

definition atFinalWaypoint :: "vec3 list \<Rightarrow> enemy \<Rightarrow> bool" where
  "atFinalWaypoint pth e = (\<not> int (pathIndex e) < int (length pth) - 1)"

text \<open>The next-wave button is disabled exactly while a wave is started.\<close>

definition waveGate :: "game \<Rightarrow> bool" where
  "waveGate s = (gameStarted s = nextWaveBtnDisabled s)"

text \<open>The attackers that a pass of \<^verbatim>\<open>updateEnemies\<close> removes as killed (on the path,
  health at most 0), and those it keeps.\<close>

definition killedOnPath :: "vec3 list \<Rightarrow> enemy \<Rightarrow> bool" where
  "killedOnPath pth e = (\<not> atFinalWaypoint pth e \<and> health e \<le> 0)"

definition survives :: "vec3 list \<Rightarrow> enemy \<Rightarrow> bool" where
  "survives pth e = (\<not> atFinalWaypoint pth e \<and> 0 < health e)"

text \<open>Three attackers of wave 1 on the path of the game: two at the final waypoint
  (index 18), one of them with health below zero, and one on the way.\<close>

definition arrivals :: game where
  "arrivals =
     initialGame\<lparr>enemies :=
       [(enemyData 0 (Vector3 (-400) 0.15 0) 1 60 0.002 15)\<lparr>pathIndex := 18\<rparr>,
        (enemyData 1 (Vector3 (-400) 0.15 0) 1 60 0.002 15)\<lparr>pathIndex := 18, health := -5\<rparr>,
        (enemyData 2 (Vector3 (-400) 0.15 0) 1 60 0.002 15)\<lparr>pathIndex := 3\<rparr>]\<rparr>"

text \<open>What a command credits to the score: the rewards of the attackers it kills (a
  frame removes the killed attackers; the player attack, when it strikes, destroys
  every attacker), and the wave bonus when the frame completes the wave.\<close>

fun killRewards :: "command \<Rightarrow> game \<Rightarrow> nat" where
  "killRewards (Tick tE tT rnd) s =
     (if isPaused s then 0
      else sum_list (map reward (filter (killedOnPath (path s)) (enemies s))))"
| "killRewards (Resume i) s =
     (if i < length (pending s) \<and> pending s ! i = PendingAttack
      then sum_list (map reward (enemies s)) else 0)"
| "killRewards c s = 0"

fun waveBonusPaid :: "command \<Rightarrow> game \<Rightarrow> nat" where
  "waveBonusPaid (Tick tE tT rnd) s =
     (if \<not> isPaused s \<and> gameStarted s \<and> enemiesInWave s \<le> enemiesSpawned s \<and>
         filter (survives (path s)) (enemies s) = []
      then 25 + wave s * 10 else 0)"
| "waveBonusPaid c s = 0"

text \<open>A basic tower on the first stretch of the path and an attacker of health 60 that
  walks past it (the attacker moves by one unit in \<open>x\<close> and \<open>z\<close> per frame); the tower
  has never fired.\<close>

definition guard :: tower where
  "guard = createTower (Vector3 (-350) 0 50) basic"

definition walker :: enemy where
  "walker =
     (enemyData 0 (Vector3 (-400) 0.15 0) 0 60 0.01 15)
       \<lparr>pathProgress := 0.48, mesh_position := Vector3 (-352) 1 48\<rparr>"

definition scenarioB :: game where
  "scenarioB = initialGame\<lparr>towers := [guard], enemies := [walker]\<rparr>"

text \<open>A projectile as \<open>guard\<close> fires it at an attacker standing at \<open>(-351, 1, 49)\<close>.\<close>

definition shot :: projectile where
  "shot =
     \<lparr>proj_position = Vector3 (-350) 1.5 50,
      direction = Vector3 (- (2 / 3)) (- (1 / 3)) (- (2 / 3)),
      proj_speed = 2.2, proj_damage = 25, proj_target = 0, life = 0,
      proj_type = basic\<rparr>"

text \<open>The same projectile far from every attacker, at age \<open>k\<close>.\<close>

definition stray :: "nat \<Rightarrow> projectile" where
  "stray k = shot\<lparr>proj_position := Vector3 0 1.5 0, life := k\<rparr>"

text \<open>The attacker of \<open>scenarioB\<close> further along: path progress, position, health and
  the time of its last shot; it aims at \<open>guard\<close>.\<close>

definition walkerAt :: "real \<Rightarrow> real \<Rightarrow> real \<Rightarrow> int \<Rightarrow> int \<Rightarrow> enemy" where
  "walkerAt prog x z h shotAt =
     walker\<lparr>pathProgress := prog, mesh_position := Vector3 x 1 z,
            enemy_target := Some (Vector3 (-350) 1 50), health := h, lastShot := shotAt\<rparr>"


text \<open>Two colonies are bought one after the other, each load completing before the
  next click. Then the player clicks twice on a third spot before the colony model of
  the first click has finished loading, and the two loads complete.\<close>

definition doubleClick :: "command list" where
  "doubleClick =
     [SelectTowerType colony None,
      PlaceTowerAtCrosshair (Some (Vector3 0 0 0)), Resume 0,
      PlaceTowerAtCrosshair (Some (Vector3 20 0 0)), Resume 0,
      PlaceTowerAtCrosshair (Some (Vector3 40 0 0)),
      PlaceTowerAtCrosshair (Some (Vector3 40 0 0)),
      Resume 0, Resume 0]"


text \<open>The projectile of \<open>shot\<close> in flight, aimed at where its target stood when it was
  fired, \<open>(-351, 1, 49)\<close>; the target has walked on to \<open>(-345, 1, 55)\<close>.\<close>

definition overtaken :: game where
  "overtaken =
     initialGame\<lparr>enemies := [walkerAt 0.55 (-345) 55 60 0], projectiles := [shot]\<rparr>"



section \<open>Evaluation lemmas\<close>

lemma sqrt_less_iff: "0 \<le> r \<Longrightarrow> sqrt x < r \<longleftrightarrow> x < r * r"
proof -
  assume r: "0 \<le> r"
  have "sqrt (r * r) = r" using r by simp
  then have "sqrt x < r \<longleftrightarrow> sqrt x < sqrt (r * r)" by simp
  also have "\<dots> \<longleftrightarrow> x < r * r" by (rule real_sqrt_less_iff)
  finally show ?thesis .
qed

lemma Distance_less_iff:
  "0 \<le> r \<Longrightarrow> Distance a b < r \<longleftrightarrow> lengthSquared (subtract a b) < r * r"
  by (simp add: Distance_def vlength_def sqrt_less_iff)

lemmas vec_simps = lengthSquared_def subtract_def add_def scale_def setY_def Lerp_def

lemma midWaveOne_eval:
  "wave midWaveOne = 1 \<and> enemiesInWave midWaveOne = 5 \<and> enemiesSpawned midWaveOne = 1 \<and>
   gameStarted midWaveOne \<and> \<not> isPaused midWaveOne \<and> length (enemies midWaveOne) = 1"
  by (simp add: midWaveOne_def startNextWave_def tick_def updateEnemies_def updateTowers_def
      updateProjectiles_def updateEnemyProjectiles_def spawnEnemies_def spawnEnemy_def
      checkWaveComplete_def resume_def initialGame_def createEnhancedPath_def pathPoints_def)


section \<open>Starting a wave\<close>

text \<open>
  Claim C1, as the specification states it: calling \<^verbatim>\<open>startNextWave()\<close> while a wave
  is active (\<open>gameStarted\<close> holds and spawning is not finished) leaves the wave number,
  the enemies-in-wave count and the spawned counter unchanged.

  The source has no such guard: \<^verbatim>\<open>startNextWave\<close> returns early only when the game
  is paused. In \<open>midWaveOne\<close>, wave 1 is active with one of five attackers spawned; the
  call moves on to wave 2 with seven attackers and resets the spawned counter.
\<close>

theorem startNextWave_active_counterexample:
  "gameStarted midWaveOne \<and> enemiesSpawned midWaveOne < enemiesInWave midWaveOne \<and>
   wave midWaveOne = 1 \<and> wave (startNextWave midWaveOne) = 2 \<and>
   enemiesInWave midWaveOne = 5 \<and> enemiesInWave (startNextWave midWaveOne) = 7 \<and>
   enemiesSpawned midWaveOne = 1 \<and> enemiesSpawned (startNextWave midWaveOne) = 0"
  using midWaveOne_eval by (simp add: startNextWave_def)

text \<open>
  Claim C1, amended: \<^verbatim>\<open>startNextWave()\<close> is a no-op exactly while the game is paused.
  Called while not paused, also while a wave is active, it starts the next wave: the
  wave number goes up by one, enemies-in-wave becomes \<open>min (3 + 2 (n + 1)) 25\<close>, the
  spawned counter is reset to 0, and the next-wave button is disabled. (The button
  stays disabled for as long as the wave is started, see
  \<open>button_disabled_while_wave_started\<close>: the guard against a second start is the
  button, not the function.)
\<close>

theorem startNextWave_paused_only:
  "(isPaused s \<longrightarrow> startNextWave s = s) \<and>
   (\<not> isPaused s \<longrightarrow>
      wave (startNextWave s) = wave s + 1 \<and>
      enemiesInWave (startNextWave s) = min (3 + (wave s + 1) * 2) 25 \<and>
      enemiesSpawned (startNextWave s) = 0 \<and>
      gameStarted (startNextWave s) \<and>
      nextWaveBtnDisabled (startNextWave s))"
  by (simp add: startNextWave_def)

theorem startNextWave_paused_only_witness:
  "isPaused (togglePause midWaveOne) \<and>
   startNextWave (togglePause midWaveOne) = togglePause midWaveOne \<and>
   \<not> isPaused midWaveOne \<and> gameStarted midWaveOne \<and>
   wave (startNextWave midWaveOne) = wave midWaveOne + 1 \<and>
   enemiesInWave (startNextWave midWaveOne) = min (3 + (wave midWaveOne + 1) * 2) 25 \<and>
   enemiesSpawned (startNextWave midWaveOne) = 0 \<and>
   nextWaveBtnDisabled (startNextWave midWaveOne)"
  using startNextWave_paused_only [of "togglePause midWaveOne"]
    startNextWave_paused_only [of midWaveOne] midWaveOne_eval
  by (simp add: togglePause_def)

text \<open>
  Claim C5: starting wave \<open>n\<close> (the number after the increment) sets enemies-in-wave to
  \<open>min (3 + n * 2) 25\<close> and the spawned counter to 0; when a started wave has spawned
  all its attackers and none is alive, \<^verbatim>\<open>checkWaveComplete\<close> credits \<open>25 + n * 10\<close>
  gold and ends the wave. For wave 1 that is 5 attackers and a bonus of 35, as the
  instance after the theorem computes.
\<close>

theorem wave_start_and_completion:
  "(\<not> isPaused s \<longrightarrow>
      wave (startNextWave s) = wave s + 1 \<and>
      enemiesInWave (startNextWave s) = min (3 + wave (startNextWave s) * 2) 25 \<and>
      enemiesSpawned (startNextWave s) = 0) \<and>
   (gameStarted s \<and> enemiesInWave s \<le> enemiesSpawned s \<and> enemies s = [] \<longrightarrow>
      gold (checkWaveComplete s) = gold s + (25 + int (wave s) * 10) \<and>
      \<not> gameStarted (checkWaveComplete s))"
  by (simp add: startNextWave_def checkWaveComplete_def Let_def)

theorem wave_start_and_completion_witness:
  "\<not> isPaused initialGame \<and> wave (startNextWave initialGame) = 1 \<and>
   enemiesInWave (startNextWave initialGame) = 5 \<and>
   enemiesSpawned (startNextWave initialGame) = 0 \<and>
   gameStarted waveOneSpawned \<and> wave waveOneSpawned = 1 \<and>
   enemiesInWave waveOneSpawned \<le> enemiesSpawned waveOneSpawned \<and>
   enemies waveOneSpawned = [] \<and>
   gold (checkWaveComplete waveOneSpawned) = gold waveOneSpawned + 35 \<and>
   \<not> gameStarted (checkWaveComplete waveOneSpawned)"
  using wave_start_and_completion [of initialGame] wave_start_and_completion [of waveOneSpawned]
  by (simp add: waveOneSpawned_def startNextWave_def initialGame_def)


section \<open>Placement\<close>

lemma validPosition_origin: "validPosition (Vector3 0 0 0) initialGame"
  by (simp add: validPosition_def initialGame_def createEnhancedPath_def pathPoints_def
      Distance_less_iff vec_simps)

text \<open>
  Claim C4: a placement request that is rejected, because gold is below the cost of the
  selected item or because the position is closer than 6 to a tower, closer than 10 to
  a colony or closer than 4 to a path point, changes nothing: \<^verbatim>\<open>placeTower\<close> returns the
  state it was given (gold, towers, colonies, attackers and everything else), and
  leaves no continuation behind. Without funds the funds branch reports, otherwise the
  placement branch; a paused game ignores the request.
\<close>

theorem rejected_placement_changes_nothing:
  assumes "gold s < cost (selectedTowerType s)
           \<or> list_ex (\<lambda>t. Distance position (base_position t) < 6) (towers s)
           \<or> list_ex (\<lambda>c. Distance position c < 10) (colonies s)
           \<or> list_ex (\<lambda>pathPoint. Distance position pathPoint < 4) (path s)"
  shows "snd (placeTower position s) = s \<and>
         fst (placeTower position s) =
           (if isPaused s then Ignored
            else if gold s < cost (selectedTowerType s) then InsufficientFunds
            else InvalidPlacement)"
  using assms by (auto simp add: placeTower_def validPosition_def Let_def)

theorem rejected_placement_changes_nothing_witness:
  "gold poorGame < cost (selectedTowerType poorGame) \<and>
   placeTower (Vector3 0 0 0) poorGame = (InsufficientFunds, poorGame) \<and>
   list_ex (\<lambda>pathPoint. Distance (Vector3 (-401) 0 1) pathPoint < 4) (path initialGame) \<and>
   placeTower (Vector3 (-401) 0 1) initialGame = (InvalidPlacement, initialGame)"
proof -
  have a: "gold poorGame < cost (selectedTowerType poorGame)"
    by (simp add: poorGame_def initialGame_def)
  have b: "list_ex (\<lambda>pathPoint. Distance (Vector3 (-401) 0 1) pathPoint < 4) (path initialGame)"
    by (simp add: initialGame_def createEnhancedPath_def pathPoints_def Distance_less_iff vec_simps)
  have p: "\<not> isPaused poorGame" "\<not> isPaused initialGame"
          "\<not> gold initialGame < cost (selectedTowerType initialGame)"
    by (simp_all add: poorGame_def initialGame_def)
  from rejected_placement_changes_nothing [of poorGame "Vector3 0 0 0"] a p
  have "placeTower (Vector3 0 0 0) poorGame = (InsufficientFunds, poorGame)"
    by (simp add: prod_eq_iff)
  moreover from rejected_placement_changes_nothing [of initialGame "Vector3 (-401) 0 1"] b p
  have "placeTower (Vector3 (-401) 0 1) initialGame = (InvalidPlacement, initialGame)"
    by (simp add: prod_eq_iff)
  ultimately show ?thesis using a b by simp
qed

text \<open>
  Claim C9: buying the player attack while no attacker is alive debits the full cost of
  1000 gold and does nothing else. The purchase is accepted (game not paused, at least
  1000 gold, a valid position under the crosshair); the resulting state is the old one
  with 1000 gold less: no attacker is destroyed, score is unchanged, no strike is left
  pending, and nothing is refunded.
\<close>

theorem playerAttack_without_enemies:
  assumes "\<not> isPaused s" and "selectedTowerType s = playerAttack"
    and "gold s \<ge> 1000" and "validPosition position s" and "enemies s = []"
  shows "placeTower position s = (Accepted, s\<lparr>gold := gold s - 1000\<rparr>)"
  using assms by (simp add: placeTower_def activatePlayerAttack_def)

theorem playerAttack_without_enemies_witness:
  "\<not> isPaused richGame \<and> selectedTowerType richGame = playerAttack \<and>
   gold richGame \<ge> 1000 \<and> validPosition (Vector3 0 0 0) richGame \<and> enemies richGame = [] \<and>
   placeTower (Vector3 0 0 0) richGame = (Accepted, richGame\<lparr>gold := 0\<rparr>)"
proof -
  have v: "validPosition (Vector3 0 0 0) richGame"
    using validPosition_origin by (simp add: validPosition_def richGame_def)
  have h: "\<not> isPaused richGame" "selectedTowerType richGame = playerAttack"
    "gold richGame \<ge> 1000" "enemies richGame = []" "gold richGame = 1000"
    by (simp_all add: richGame_def initialGame_def)
  from playerAttack_without_enemies [OF h(1) h(2) h(3) v h(4)] h v show ?thesis by simp
qed



section \<open>The pass over the attackers\<close>

text \<open>A loop whose body leaves a field alone leaves it alone.\<close>

lemma foldr_keeps:
  assumes "\<And>x s. g (f x s) = g s"
  shows "g (foldr f xs s) = g s"
  using assms by (induction xs) simp_all

lemma towerLoop_keeps:
  assumes "\<And>x s. g (towerStep t x s) = g s"
  shows "g (towerLoop t xs s) = g s"
  using assms by (induction xs arbitrary: s) simp_all

lemma moveAlongPath_keeps [simp]:
  "health (moveAlongPath pth e) = health e"
  "reward (moveAlongPath pth e) = reward e"
  "enemy_id (moveAlongPath pth e) = enemy_id e"
  by (simp_all add: moveAlongPath_def Let_def)

lemma fireEnemyProjectile_keeps [simp]:
  "gold (fireEnemyProjectile e s) = gold s"
  "lives (fireEnemyProjectile e s) = lives s"
  "score (fireEnemyProjectile e s) = score s"
  "enemies (fireEnemyProjectile e s) = enemies s"
  "path (fireEnemyProjectile e s) = path s"
  "towers (fireEnemyProjectile e s) = towers s"
  "projectiles (fireEnemyProjectile e s) = projectiles s"
  "wave (fireEnemyProjectile e s) = wave s"
  "gameStarted (fireEnemyProjectile e s) = gameStarted s"
  "enemiesSpawned (fireEnemyProjectile e s) = enemiesSpawned s"
  "enemiesInWave (fireEnemyProjectile e s) = enemiesInWave s"
  "isPaused (fireEnemyProjectile e s) = isPaused s"
  "pending (fireEnemyProjectile e s) = pending s"
  by (simp_all add: fireEnemyProjectile_def Let_def split: option.splits)

lemma enemyShoot_keeps [simp]:
  "gold (enemyShoot t e s) = gold s"
  "lives (enemyShoot t e s) = lives s"
  "score (enemyShoot t e s) = score s"
  "path (enemyShoot t e s) = path s"
  "towers (enemyShoot t e s) = towers s"
  "projectiles (enemyShoot t e s) = projectiles s"
  "wave (enemyShoot t e s) = wave s"
  "gameStarted (enemyShoot t e s) = gameStarted s"
  "enemiesSpawned (enemyShoot t e s) = enemiesSpawned s"
  "enemiesInWave (enemyShoot t e s) = enemiesInWave s"
  "isPaused (enemyShoot t e s) = isPaused s"
  "pending (enemyShoot t e s) = pending s"
  by (simp_all add: enemyShoot_def Let_def)

lemma enemyShoot_enemies:
  "\<exists>e'. enemies (enemyShoot t e s) = e' # enemies s \<and> enemy_id e' = enemy_id e \<and>
        health e' = health e \<and> reward e' = reward e"
  by (simp add: enemyShoot_def Let_def)

lemma enemyStep_keeps [simp]:
  "path (enemyStep t e s) = path s"
  "towers (enemyStep t e s) = towers s"
  "projectiles (enemyStep t e s) = projectiles s"
  "wave (enemyStep t e s) = wave s"
  "gameStarted (enemyStep t e s) = gameStarted s"
  "enemiesSpawned (enemyStep t e s) = enemiesSpawned s"
  "enemiesInWave (enemyStep t e s) = enemiesInWave s"
  "isPaused (enemyStep t e s) = isPaused s"
  "pending (enemyStep t e s) = pending s"
  by (simp_all add: enemyStep_def Let_def)


lemma enemyStep_lives:
  "lives (enemyStep t e s) = lives s - (if atFinalWaypoint (path s) e then 1 else 0)"
  by (simp add: enemyStep_def atFinalWaypoint_def Let_def)

lemma enemyStep_gold:
  "gold (enemyStep t e s) = gold s + (if killedOnPath (path s) e then int (reward e) else 0)"
  by (simp add: enemyStep_def killedOnPath_def atFinalWaypoint_def Let_def)

lemma enemyStep_score:
  "score (enemyStep t e s) = score s + (if killedOnPath (path s) e then int (reward e) * 15 else 0)"
  by (simp add: enemyStep_def killedOnPath_def atFinalWaypoint_def Let_def)

lemma enemyStep_ids:
  "map enemy_id (enemies (enemyStep t e s)) =
     (if survives (path s) e then [enemy_id e] else []) @ map enemy_id (enemies s)"
  using enemyShoot_enemies [of t "moveAlongPath (path s) e" s]
  by (auto simp add: enemyStep_def survives_def atFinalWaypoint_def Let_def)

lemma enemyLoop_path [simp]: "path (foldr (enemyStep t) es s) = path s"
  by (rule foldr_keeps) simp



lemma enemyLoop_score:
  "score (foldr (enemyStep t) es s) =
     score s + 15 * int (sum_list (map reward (filter (killedOnPath (path s)) es)))"
  by (induction es) (simp_all add: enemyStep_score)

lemma enemyLoop_ids:
  "map enemy_id (enemies (foldr (enemyStep t) es s)) =
     map enemy_id (filter (survives (path s)) es) @ map enemy_id (enemies s)"
  by (induction es) (simp_all add: enemyStep_ids)










text \<open>An attacker that is not yet at the final waypoint and has health left stays in
  the registry for this pass, also when the pass moves its path index onto the final
  waypoint; it is the next pass that finds it there and takes the life.\<close>

lemma arrival_is_kept_for_the_next_pass:
  "\<not> atFinalWaypoint (path s) e \<Longrightarrow> 0 < health e \<Longrightarrow>
   map enemy_id (enemies (enemyStep t e s)) = enemy_id e # map enemy_id (enemies s) \<and>
   lives (enemyStep t e s) = lives s \<and> gold (enemyStep t e s) = gold s"
  by (simp add: enemyStep_ids enemyStep_lives enemyStep_gold survives_def killedOnPath_def)


section \<open>What the other passes leave alone\<close>

lemma fireProjectile_keeps [simp]:
  "gold (fireProjectile twr s) = gold s"
  "lives (fireProjectile twr s) = lives s"
  "score (fireProjectile twr s) = score s"
  "enemies (fireProjectile twr s) = enemies s"
  "path (fireProjectile twr s) = path s"
  "towers (fireProjectile twr s) = towers s"
  "wave (fireProjectile twr s) = wave s"
  "gameStarted (fireProjectile twr s) = gameStarted s"
  "enemiesSpawned (fireProjectile twr s) = enemiesSpawned s"
  "enemiesInWave (fireProjectile twr s) = enemiesInWave s"
  "isPaused (fireProjectile twr s) = isPaused s"
  "pending (fireProjectile twr s) = pending s"
  "effects (fireProjectile twr s) = effects s"
  by (simp_all add: fireProjectile_def Let_def split: option.splits)

lemma towerStep_keeps [simp]:
  "gold (towerStep t twr s) = gold s"
  "lives (towerStep t twr s) = lives s"
  "score (towerStep t twr s) = score s"
  "enemies (towerStep t twr s) = enemies s"
  "path (towerStep t twr s) = path s"
  "wave (towerStep t twr s) = wave s"
  "gameStarted (towerStep t twr s) = gameStarted s"
  "enemiesSpawned (towerStep t twr s) = enemiesSpawned s"
  "enemiesInWave (towerStep t twr s) = enemiesInWave s"
  "isPaused (towerStep t twr s) = isPaused s"
  "pending (towerStep t twr s) = pending s"
  "effects (towerStep t twr s) = effects s"
  by (simp_all add: towerStep_def Let_def)

lemma updateTowers_keeps [simp]:
  "gold (updateTowers t s) = gold s"
  "lives (updateTowers t s) = lives s"
  "score (updateTowers t s) = score s"
  "enemies (updateTowers t s) = enemies s"
  "path (updateTowers t s) = path s"
  "wave (updateTowers t s) = wave s"
  "gameStarted (updateTowers t s) = gameStarted s"
  "enemiesSpawned (updateTowers t s) = enemiesSpawned s"
  "enemiesInWave (updateTowers t s) = enemiesInWave s"
  "isPaused (updateTowers t s) = isPaused s"
  "pending (updateTowers t s) = pending s"
  "effects (updateTowers t s) = effects s"
  by (simp_all add: updateTowers_def towerLoop_keeps)

lemma length_applyDamage [simp]: "length (applyDamage i d es) = length es"
  by (induction es) simp_all

lemma projectileStep_keeps [simp]:
  "gold (projectileStep p s) = gold s"
  "lives (projectileStep p s) = lives s"
  "score (projectileStep p s) = score s"
  "path (projectileStep p s) = path s"
  "towers (projectileStep p s) = towers s"
  "wave (projectileStep p s) = wave s"
  "gameStarted (projectileStep p s) = gameStarted s"
  "enemiesSpawned (projectileStep p s) = enemiesSpawned s"
  "enemiesInWave (projectileStep p s) = enemiesInWave s"
  "isPaused (projectileStep p s) = isPaused s"
  "pending (projectileStep p s) = pending s"
  "length (enemies (projectileStep p s)) = length (enemies s)"
  by (simp_all add: projectileStep_def Let_def split: option.splits)

lemma updateProjectiles_keeps [simp]:
  "gold (updateProjectiles s) = gold s"
  "lives (updateProjectiles s) = lives s"
  "score (updateProjectiles s) = score s"
  "path (updateProjectiles s) = path s"
  "towers (updateProjectiles s) = towers s"
  "wave (updateProjectiles s) = wave s"
  "gameStarted (updateProjectiles s) = gameStarted s"
  "enemiesSpawned (updateProjectiles s) = enemiesSpawned s"
  "enemiesInWave (updateProjectiles s) = enemiesInWave s"
  "isPaused (updateProjectiles s) = isPaused s"
  "pending (updateProjectiles s) = pending s"
  by (simp_all add: updateProjectiles_def foldr_keeps)

lemma updateProjectiles_length_enemies [simp]:
  "length (enemies (updateProjectiles s)) = length (enemies s)"
  using foldr_keeps [where g = "\<lambda>s. length (enemies s)" and f = projectileStep]
  by (simp add: updateProjectiles_def)

lemma enemyProjectileStep_keeps [simp]:
  "gold (enemyProjectileStep p s) = gold s"
  "lives (enemyProjectileStep p s) = lives s"
  "score (enemyProjectileStep p s) = score s"
  "enemies (enemyProjectileStep p s) = enemies s"
  "projectiles (enemyProjectileStep p s) = projectiles s"
  "path (enemyProjectileStep p s) = path s"
  "towers (enemyProjectileStep p s) = towers s"
  "wave (enemyProjectileStep p s) = wave s"
  "gameStarted (enemyProjectileStep p s) = gameStarted s"
  "enemiesSpawned (enemyProjectileStep p s) = enemiesSpawned s"
  "enemiesInWave (enemyProjectileStep p s) = enemiesInWave s"
  "isPaused (enemyProjectileStep p s) = isPaused s"
  "pending (enemyProjectileStep p s) = pending s"
  by (simp_all add: enemyProjectileStep_def Let_def)

lemma updateEnemyProjectiles_keeps [simp]:
  "gold (updateEnemyProjectiles s) = gold s"
  "lives (updateEnemyProjectiles s) = lives s"
  "score (updateEnemyProjectiles s) = score s"
  "enemies (updateEnemyProjectiles s) = enemies s"
  "projectiles (updateEnemyProjectiles s) = projectiles s"
  "path (updateEnemyProjectiles s) = path s"
  "towers (updateEnemyProjectiles s) = towers s"
  "wave (updateEnemyProjectiles s) = wave s"
  "gameStarted (updateEnemyProjectiles s) = gameStarted s"
  "enemiesSpawned (updateEnemyProjectiles s) = enemiesSpawned s"
  "enemiesInWave (updateEnemyProjectiles s) = enemiesInWave s"
  "isPaused (updateEnemyProjectiles s) = isPaused s"
  "pending (updateEnemyProjectiles s) = pending s"
  by (simp_all add: updateEnemyProjectiles_def foldr_keeps)

lemma spawnEnemies_keeps [simp]:
  "gold (spawnEnemies rnd s) = gold s"
  "lives (spawnEnemies rnd s) = lives s"
  "score (spawnEnemies rnd s) = score s"
  "enemies (spawnEnemies rnd s) = enemies s"
  "projectiles (spawnEnemies rnd s) = projectiles s"
  "path (spawnEnemies rnd s) = path s"
  "towers (spawnEnemies rnd s) = towers s"
  "wave (spawnEnemies rnd s) = wave s"
  "gameStarted (spawnEnemies rnd s) = gameStarted s"
  "enemiesSpawned (spawnEnemies rnd s) = enemiesSpawned s"
  "enemiesInWave (spawnEnemies rnd s) = enemiesInWave s"
  "isPaused (spawnEnemies rnd s) = isPaused s"
  by (simp_all add: spawnEnemies_def spawnEnemy_def)

lemma updateEnemies_keeps [simp]:
  "path (updateEnemies t s) = path s"
  "towers (updateEnemies t s) = towers s"
  "projectiles (updateEnemies t s) = projectiles s"
  "wave (updateEnemies t s) = wave s"
  "gameStarted (updateEnemies t s) = gameStarted s"
  "enemiesSpawned (updateEnemies t s) = enemiesSpawned s"
  "enemiesInWave (updateEnemies t s) = enemiesInWave s"
  "isPaused (updateEnemies t s) = isPaused s"
  "pending (updateEnemies t s) = pending s"
  by (simp_all add: updateEnemies_def foldr_keeps)

lemma updateEnemies_score:
  "\<not> isPaused s \<Longrightarrow>
   score (updateEnemies t s) =
     score s + 15 * int (sum_list (map reward (filter (killedOnPath (path s)) (enemies s))))"
  using enemyLoop_score [of t "enemies s" "s\<lparr>enemies := []\<rparr>"]
  by (simp add: updateEnemies_def)

lemma updateEnemies_empty:
  "\<not> isPaused s \<Longrightarrow>
   enemies (updateEnemies t s) = [] \<longleftrightarrow> filter (survives (path s)) (enemies s) = []"
proof -
  assume "\<not> isPaused s"
  then have "map enemy_id (enemies (updateEnemies t s)) =
             map enemy_id (filter (survives (path s)) (enemies s))"
    using enemyLoop_ids [of t "enemies s" "s\<lparr>enemies := []\<rparr>"]
    by (simp add: updateEnemies_def)
  then have "length (enemies (updateEnemies t s)) = length (filter (survives (path s)) (enemies s))"
    by (metis length_map)
  then show ?thesis by (metis length_0_conv)
qed

lemma tick_score:
  "score (tick tE tT rnd s) =
     score s + 15 * int (killRewards (Tick tE tT rnd) s) + 5 * int (waveBonusPaid (Tick tE tT rnd) s)"
proof (cases "isPaused s")
  case True
  then show ?thesis by (simp add: tick_def)
next
  case False
  define s4 where "s4 = spawnEnemies rnd (updateEnemyProjectiles
             (updateProjectiles (updateTowers tT (updateEnemies tE s))))"
  have sc: "score s4 = score s + 15 * int (sum_list (map reward (filter (killedOnPath (path s)) (enemies s))))"
    using False by (simp add: s4_def updateEnemies_score)
  have fl: "gameStarted s4 = gameStarted s" "enemiesSpawned s4 = enemiesSpawned s"
    "enemiesInWave s4 = enemiesInWave s" "wave s4 = wave s"
    by (simp_all add: s4_def)
  have "length (enemies s4) = length (enemies (updateEnemies tE s))"
    by (simp add: s4_def)
  then have em: "enemies s4 = [] \<longleftrightarrow> filter (survives (path s)) (enemies s) = []"
    using updateEnemies_empty [OF False, of tE] by (metis length_0_conv)
  have "tick tE tT rnd s = checkWaveComplete s4"
    using False by (simp add: tick_def s4_def)
  then show ?thesis
    using False sc fl em by (simp add: checkWaveComplete_def Let_def)
qed

lemma strike_score:
  "score (foldr strikeEnemy es s) = score s + 15 * int (sum_list (map reward es))"
  by (induction es) (simp_all add: strikeEnemy_def)

lemma strike_gold:
  "gold (foldr strikeEnemy es s) = gold s + int (sum_list (map reward es))"
  by (induction es) (simp_all add: strikeEnemy_def)

lemma resume_score:
  "score (resume i s) = score s + 15 * int (killRewards (Resume i) s)"
proof (cases "i < length (pending s)")
  case False
  then show ?thesis by (simp add: resume_def)
next
  case True
  then show ?thesis
    by (cases "pending s ! i")
       (simp_all add: resume_def playerAttackStrike_def strike_score split: list.splits)
qed

lemma placeTower_score [simp]: "score (snd (placeTower position s)) = score s"
  by (simp add: placeTower_def activatePlayerAttack_def Let_def split: itemKind.splits)

lemma placeTowerAtCrosshair_score [simp]: "score (placeTowerAtCrosshair hit s) = score s"
  by (simp add: placeTowerAtCrosshair_def split: option.splits)

lemma exec_score:
  "score (exec c s) = score s + 15 * int (killRewards c s) + 5 * int (waveBonusPaid c s)"
proof (cases c)
  case (Tick tE tT rnd)
  then show ?thesis by (simp add: tick_score)
next
  case (Resume i)
  then show ?thesis by (simp add: resume_score)
qed (simp_all add: startNextWave_def togglePause_def selectTowerType_def Let_def abandon_def)

lemma run_score_mono: "score s \<le> score (run cs s)"
proof (induction cs arbitrary: s)
  case Nil
  show ?case by simp
next
  case (Cons c cs)
  have "score s \<le> score (exec c s)" by (simp add: exec_score)
  also have "\<dots> \<le> score (run cs (exec c s))" by (rule Cons.IH)
  finally show ?case by simp
qed

text \<open>
  Claim C10: the score never decreases. Every command, a frame included, changes the
  score by exactly 15 times the rewards of the attackers it kills plus 5 times the wave
  bonus it pays, and both are natural numbers; placement, pausing, starting a wave and a
  failed load credit nothing. Hence the score after any run of commands is at least the
  score before. (The page reload at game over builds a new game object; it is not a
  step of this one.)
\<close>

theorem score_never_decreases:
  "score (exec c s) = score s + 15 * int (killRewards c s) + 5 * int (waveBonusPaid c s) \<and>
   score s \<le> score (exec c s) \<and>
   score s \<le> score (run cs s)"
  using exec_score [of c s] run_score_mono [of s cs] by simp



section \<open>The next-wave button\<close>

text \<open>\<^verbatim>\<open>startNextWave\<close> disables the button and \<^verbatim>\<open>checkWaveComplete\<close> enables it
  again; nothing else touches it or \<open>gameStarted\<close>. So in every state reachable from
  the initial one the button is disabled exactly while a wave is started.\<close>

lemma button_keeps [simp]:
  "nextWaveBtnDisabled (fireEnemyProjectile e s) = nextWaveBtnDisabled s"
  "nextWaveBtnDisabled (enemyShoot t e s) = nextWaveBtnDisabled s"
  "nextWaveBtnDisabled (enemyStep t e s) = nextWaveBtnDisabled s"
  "nextWaveBtnDisabled (fireProjectile twr s) = nextWaveBtnDisabled s"
  "nextWaveBtnDisabled (towerStep t twr s) = nextWaveBtnDisabled s"
  "nextWaveBtnDisabled (projectileStep p s) = nextWaveBtnDisabled s"
  "nextWaveBtnDisabled (enemyProjectileStep q s) = nextWaveBtnDisabled s"
  "nextWaveBtnDisabled (spawnEnemies rnd s) = nextWaveBtnDisabled s"
  by (simp_all add: fireEnemyProjectile_def enemyShoot_def enemyStep_def fireProjectile_def
      towerStep_def projectileStep_def enemyProjectileStep_def spawnEnemies_def spawnEnemy_def
      Let_def split: option.splits)

lemma button_keeps_loops [simp]:
  "nextWaveBtnDisabled (updateEnemies t s) = nextWaveBtnDisabled s"
  "nextWaveBtnDisabled (updateTowers t s) = nextWaveBtnDisabled s"
  "nextWaveBtnDisabled (updateProjectiles s) = nextWaveBtnDisabled s"
  "nextWaveBtnDisabled (updateEnemyProjectiles s) = nextWaveBtnDisabled s"
  by (simp_all add: updateEnemies_def updateTowers_def updateProjectiles_def
      updateEnemyProjectiles_def towerLoop_keeps foldr_keeps)

lemma placeTower_gate:
  "gameStarted (snd (placeTower position s)) = gameStarted s \<and>
   nextWaveBtnDisabled (snd (placeTower position s)) = nextWaveBtnDisabled s"
  by (simp add: placeTower_def activatePlayerAttack_def Let_def split: itemKind.splits)

lemma resumePending_gate:
  "gameStarted (resumePending c s) = gameStarted s \<and>
   nextWaveBtnDisabled (resumePending c s) = nextWaveBtnDisabled s"
proof (cases c)
  case PendingAttack
  have "gameStarted (foldr strikeEnemy es s') = gameStarted s' \<and>
        nextWaveBtnDisabled (foldr strikeEnemy es s') = nextWaveBtnDisabled s'" for es s'
    by (induction es) (simp_all add: strikeEnemy_def)
  then show ?thesis using PendingAttack by (simp add: playerAttackStrike_def)
qed (simp_all split: list.splits)

lemma exec_gate: "waveGate s \<Longrightarrow> waveGate (exec c s)"
proof (cases c)
  case (Tick tE tT rnd)
  assume "waveGate s"
  then show ?thesis using Tick
    by (simp add: waveGate_def tick_def checkWaveComplete_def Let_def)
next
  case (Resume i)
  assume "waveGate s"
  then show ?thesis using Resume resumePending_gate
    by (simp add: waveGate_def resume_def)
next
  case (SelectTowerType ty hit)
  assume "waveGate s"
  then show ?thesis using SelectTowerType placeTower_gate
    by (simp add: waveGate_def selectTowerType_def placeTowerAtCrosshair_def Let_def
        split: option.splits)
next
  case (PlaceTowerAtCrosshair hit)
  assume "waveGate s"
  then show ?thesis using PlaceTowerAtCrosshair placeTower_gate
    by (simp add: waveGate_def placeTowerAtCrosshair_def split: option.splits)
qed (simp_all add: waveGate_def startNextWave_def togglePause_def abandon_def)

lemma run_gate: "waveGate s \<Longrightarrow> waveGate (run cs s)"
  by (induction cs arbitrary: s) (simp_all add: exec_gate)

lemma button_disabled_while_wave_started:
  "gameStarted (run cs initialGame) = nextWaveBtnDisabled (run cs initialGame)"
  using run_gate [of initialGame cs] by (simp add: waveGate_def initialGame_def)


section \<open>Projectiles of the defenders\<close>

lemma closestEnemy_in_registry:
  "closestEnemy position es target d = Some tgt \<Longrightarrow> target = Some tgt \<or> tgt \<in> set es"
  by (induction es arbitrary: target d) (auto simp add: Let_def split: if_splits)

lemma fireProjectile_projectiles:
  "tower_target twr = Some tgt \<Longrightarrow> \<not> isPaused s \<Longrightarrow>
   projectiles (fireProjectile twr s) =
     projectiles s @
       [\<lparr>proj_position = add (base_position twr) (Vector3 0 0.5 0),
         direction = normalize (subtract (mesh_position tgt)
                       (add (base_position twr) (Vector3 0 0.5 0))),
         proj_speed = 2.2, proj_damage = damage (tower_type twr),
         proj_target = enemy_id tgt, life = 0, proj_type = tower_type twr\<rparr>]"
  by (simp add: fireProjectile_def Let_def)

lemma towerStep_projectiles:
  "projectiles (towerStep t twr s) = projectiles s \<or>
   (\<exists>tgt \<in> set (enemies s).
      projectiles (towerStep t twr s) =
        projectiles s @
          [\<lparr>proj_position = add (base_position twr) (Vector3 0 0.5 0),
            direction = normalize (subtract (mesh_position tgt)
                          (add (base_position twr) (Vector3 0 0.5 0))),
            proj_speed = 2.2, proj_damage = damage (tower_type twr),
            proj_target = enemy_id tgt, life = 0, proj_type = tower_type twr\<rparr>])"
proof (cases "closestEnemy (base_position twr) (enemies s) None (towerRange (tower_type twr))")
  case None
  then show ?thesis by (simp add: towerStep_def Let_def)
next
  case (Some tgt)
  then have "tgt \<in> set (enemies s)" using closestEnemy_in_registry by fastforce
  then show ?thesis using Some
    by (cases "isPaused s") (auto simp add: towerStep_def Let_def fireProjectile_def)
qed

lemma advance_fields [simp]:
  "direction (advance p) = direction p"
  "proj_speed (advance p) = proj_speed p"
  "proj_damage (advance p) = proj_damage p"
  "proj_target (advance p) = proj_target p"
  "proj_type (advance p) = proj_type p"
  "life (advance p) = life p + 1"
  "proj_position (advance p) = add (proj_position p) (scale (direction p) (proj_speed p))"
  by (simp_all add: advance_def)

lemma advance_n_direction [simp]:
  "direction ((advance ^^ n) p) = direction p"
  "proj_speed ((advance ^^ n) p) = proj_speed p"
  by (induction n) simp_all

lemma advance_n_life [simp]: "life ((advance ^^ n) p) = life p + n"
  by (induction n) simp_all

lemma advance_n_position:
  "proj_position ((advance ^^ n) p) =
     add (proj_position p) (scale (direction p) (real n * proj_speed p))"
proof (induction n)
  case 0
  show ?case by (cases "proj_position p") (simp add: add_def scale_def)
next
  case (Suc n)
  then show ?case by (simp add: add_def scale_def algebra_simps)
qed

lemma projectileStep_projectiles:
  "projectiles (projectileStep p s) = projectiles s \<or>
   (projectiles (projectileStep p s) = advance p # projectiles s \<and> life p < 100)"
  by (auto simp add: projectileStep_def Let_def split: option.splits)

lemma projectileLoop_subset:
  "set (projectiles (foldr projectileStep ps s)) \<subseteq> advance ` set ps \<union> set (projectiles s)"
proof (induction ps)
  case Nil
  show ?case by simp
next
  case (Cons p ps)
  show ?case
    using projectileStep_projectiles [of p "foldr projectileStep ps s"] Cons.IH by auto
qed

lemma updateProjectiles_subset:
  "\<not> isPaused s \<Longrightarrow>
   set (projectiles (updateProjectiles s)) \<subseteq> advance ` set (projectiles s)"
  using projectileLoop_subset [of "projectiles s" "s\<lparr>projectiles := []\<rparr>"]
  by (simp add: updateProjectiles_def)

lemma sqrt_nine_quarters: "sqrt (9 / 4) = 3 / 2"
  by (rule real_sqrt_unique) (simp_all add: power2_eq_square)

lemma guard_shot:
  "fireProjectile (guard\<lparr>tower_target := Some (walker\<lparr>mesh_position := Vector3 (-351) 1 49\<rparr>)\<rparr>)
     initialGame = initialGame\<lparr>projectiles := [shot]\<rparr>"
  by (simp add: fireProjectile_def guard_def createTower_def walker_def enemyData_def shot_def
      initialGame_def normalize_def vlength_def vec_simps sqrt_nine_quarters Let_def)

lemma hit_radius:
  "Distance a b < 1.8 \<longleftrightarrow> lengthSquared (subtract a b) < 3.24"
  "Distance a b * 5 < 9 \<longleftrightarrow> lengthSquared (subtract a b) < 3.24"
proof -
  show "Distance a b < 1.8 \<longleftrightarrow> lengthSquared (subtract a b) < 3.24"
    using Distance_less_iff [of "1.8" a b] by simp
  then show "Distance a b * 5 < 9 \<longleftrightarrow> lengthSquared (subtract a b) < 3.24"
    by simp
qed

lemma projectileLoop_miss:
  "list_all (\<lambda>p. hitTarget (enemies s) (advance p) = None) ps \<Longrightarrow>
   foldr projectileStep ps s =
     s\<lparr>projectiles := filter (\<lambda>p. life p \<le> 100) (map advance ps) @ projectiles s\<rparr>"
  by (induction ps) (simp_all add: projectileStep_def Let_def)

lemma updateProjectiles_miss:
  "\<not> isPaused s \<Longrightarrow>
   list_all (\<lambda>p. hitTarget (enemies s) (advance p) = None) (projectiles s) \<Longrightarrow>
   updateProjectiles s =
     s\<lparr>projectiles := filter (\<lambda>p. life p \<le> 100) (map advance (projectiles s))\<rparr>"
  using projectileLoop_miss [of "s\<lparr>projectiles := []\<rparr>" "projectiles s"]
  by (simp add: updateProjectiles_def)

lemma projectileLoop_ttl:
  "list_all (\<lambda>p. life p \<le> 100) (projectiles s) \<Longrightarrow>
   list_all (\<lambda>p. life p \<le> 100) (projectiles (foldr projectileStep ps s))"
proof (induction ps)
  case Nil
  then show ?case by simp
next
  case (Cons p ps)
  then show ?case
    using projectileStep_projectiles [of p "foldr projectileStep ps s"] by auto
qed

lemma updateProjectiles_ttl:
  "\<not> isPaused s \<Longrightarrow> list_all (\<lambda>p. life p \<le> 100) (projectiles (updateProjectiles s))"
  using projectileLoop_ttl [of "s\<lparr>projectiles := []\<rparr>" "projectiles s"]
  by (simp add: updateProjectiles_def)

lemma hitTarget_Cons:
  "hitTarget (e # es) q =
     (if enemy_id e = proj_target q
      then (if Distance (proj_position q) (mesh_position e) < 1.8 then Some e else None)
      else hitTarget es q)"
  by (simp add: hitTarget_def)

lemma hitTarget_Nil: "hitTarget [] q = None"
  by (simp add: hitTarget_def)

lemma hitTarget_applyDamage:
  "hitTarget (applyDamage i d es) q = None \<longleftrightarrow> hitTarget es q = None"
  by (induction es) (simp_all add: hitTarget_Cons hitTarget_Nil)

lemma projectileStep_miss:
  "hitTarget (enemies s) (advance p) = None \<Longrightarrow> life p < 100 \<Longrightarrow>
   projectiles (projectileStep p s) = advance p # projectiles s"
  by (simp add: projectileStep_def Let_def)

lemma projectileStep_miss_later:
  "hitTarget (enemies (projectileStep p s)) q = None \<longleftrightarrow> hitTarget (enemies s) q = None"
  by (simp add: projectileStep_def Let_def hitTarget_applyDamage split: option.splits)

lemma projectileLoop_miss_later:
  "hitTarget (enemies (foldr projectileStep ps s)) q = None \<longleftrightarrow> hitTarget (enemies s) q = None"
  by (induction ps) (simp_all add: projectileStep_miss_later)

lemma projectileLoop_grows:
  "set (projectiles s) \<subseteq> set (projectiles (foldr projectileStep ps s))"
proof (induction ps)
  case Nil
  show ?case by simp
next
  case (Cons p ps)
  then show ?case
    using projectileStep_projectiles [of p "foldr projectileStep ps s"] by auto
qed

lemma projectileLoop_keeps_young:
  "p \<in> set ps \<Longrightarrow> hitTarget (enemies s) (advance p) = None \<Longrightarrow> life p < 100 \<Longrightarrow>
   advance p \<in> set (projectiles (foldr projectileStep ps s))"
proof (induction ps)
  case Nil
  then show ?case by simp
next
  case (Cons q ps)
  show ?case
  proof (cases "p = q")
    case True
    have "hitTarget (enemies (foldr projectileStep ps s)) (advance q) = None"
      using Cons.prems(2) True by (simp add: projectileLoop_miss_later)
    then show ?thesis using Cons.prems(3) True
      by (simp add: projectileStep_miss)
  next
    case False
    then have "advance p \<in> set (projectiles (foldr projectileStep ps s))"
      using Cons by simp
    then show ?thesis
      using projectileStep_projectiles [of q "foldr projectileStep ps s"] by auto
  qed
qed

lemma miss_survives_iff:
  assumes "\<not> isPaused s" and "p \<in> set (projectiles s)"
    and "hitTarget (enemies s) (advance p) = None"
  shows "advance p \<in> set (projectiles (updateProjectiles s)) \<longleftrightarrow> life p < 100"
proof
  assume "advance p \<in> set (projectiles (updateProjectiles s))"
  then have "life (advance p) \<le> 100"
    using updateProjectiles_ttl [OF assms(1)] by (auto simp add: list_all_iff)
  then show "life p < 100" by simp
next
  assume "life p < 100"
  then show "advance p \<in> set (projectiles (updateProjectiles s))"
    using assms projectileLoop_keeps_young [of p "projectiles s" "s\<lparr>projectiles := []\<rparr>"]
    by (simp add: updateProjectiles_def)
qed

lemma projectileStep_miss_harmless:
  "hitTarget (enemies s) (advance p) = None \<Longrightarrow>
   enemies (projectileStep p s) = enemies s \<and> effects (projectileStep p s) = effects s"
  by (simp add: projectileStep_def Let_def)

lemma projectileStep_exact:
  "projectiles (projectileStep p s) =
     (if hitTarget (enemies s) (advance p) = None \<and> life p < 100
      then advance p # projectiles s else projectiles s)"
  by (auto simp add: projectileStep_def Let_def split: option.splits)

lemma projectileLoop_exact:
  "projectiles (foldr projectileStep ps s) =
     map advance (filter (\<lambda>p. hitTarget (enemies s) (advance p) = None \<and> life p < 100) ps)
       @ projectiles s"
  by (induction ps) (simp_all add: projectileStep_exact projectileLoop_miss_later)

lemma updateProjectiles_exact:
  "\<not> isPaused s \<Longrightarrow>
   projectiles (updateProjectiles s) =
     map advance (filter (\<lambda>p. hitTarget (enemies s) (advance p) = None \<and> life p < 100)
       (projectiles s))"
  using projectileLoop_exact [of "projectiles s" "s\<lparr>projectiles := []\<rparr>"]
  by (simp add: updateProjectiles_def)

lemma towerLoop_prefix:
  "take (length (projectiles s)) (projectiles (towerLoop t ts s)) = projectiles s \<and>
   length (projectiles s) \<le> length (projectiles (towerLoop t ts s))"
proof (induction ts arbitrary: s)
  case Nil
  show ?case by simp
next
  case (Cons twr ts)
  have step: "take (length (projectiles s)) (projectiles (towerStep t twr s)) = projectiles s \<and>
        length (projectiles s) \<le> length (projectiles (towerStep t twr s))"
    using towerStep_projectiles [of t twr s] by auto
  have "take (length (projectiles s)) (projectiles (towerLoop t ts (towerStep t twr s))) =
        take (length (projectiles s))
          (take (length (projectiles (towerStep t twr s)))
             (projectiles (towerLoop t ts (towerStep t twr s))))"
    using step by (simp add: min_def)
  also have "\<dots> = take (length (projectiles s)) (projectiles (towerStep t twr s))"
    using Cons.IH [of "towerStep t twr s"] by simp
  finally show ?case using step Cons.IH [of "towerStep t twr s"] by simp
qed

lemma updateTowers_prefix:
  "take (length (projectiles s)) (projectiles (updateTowers t s)) = projectiles s"
  using towerLoop_prefix [of "s\<lparr>towers := []\<rparr>" t "towers s"]
  by (simp add: updateTowers_def)

lemma checkWaveComplete_projectiles [simp]:
  "projectiles (checkWaveComplete s) = projectiles s"
  by (simp add: checkWaveComplete_def Let_def)

lemma tick_projectiles:
  "\<not> isPaused s \<Longrightarrow>
   projectiles (tick tE tT rnd s) =
     map advance
       (filter (\<lambda>p. hitTarget (enemies (updateEnemies tE s)) (advance p) = None \<and> life p < 100)
          (projectiles (updateTowers tT (updateEnemies tE s))))"
  by (simp add: tick_def updateProjectiles_exact)

lemma tick_old_projectiles:
  "take (length (projectiles s)) (projectiles (updateTowers tT (updateEnemies tE s))) =
     projectiles s"
  using updateTowers_prefix [of "updateEnemies tE s" tT] by simp

text \<open>
  Claim C6: the direction of a defender's projectile is computed once, when it is fired,
  as the normalized vector from the firing position (half a unit above the tower) to
  the position the target has at that moment; every later frame moves the projectile by
  that direction times its speed and never looks at the target again to aim.
  \<^item> \<^verbatim>\<open>fireProjectile\<close> appends one projectile with exactly that direction; in a pass of
    \<^verbatim>\<open>updateTowers\<close> the target is an attacker taken from the registry in that step.
  \<^item> One step keeps direction and speed and adds \<open>direction * speed\<close> to the position;
    after \<open>n\<close> steps the position is the origin plus \<open>n * speed * direction\<close>.
  \<^item> A pass of \<^verbatim>\<open>updateProjectiles\<close> leaves exactly the projectiles that do not hit
    and are not too old, each stepped once, in their order. The attackers enter only
    through the hit test: where the target is now does not change the step.
  \<^item> A frame does the same to the list as it stands after \<^verbatim>\<open>updateTowers\<close>, which
    begins with the projectiles that were in flight before the frame, untouched.
  In \<open>overtaken\<close> the target has walked away from where the projectile was aimed; the
  projectile goes on along its old direction.
\<close>

theorem direction_fixed_at_fire_time:
  "(tower_target twr = Some tgt \<and> \<not> isPaused s \<longrightarrow>
      projectiles (fireProjectile twr s) =
        projectiles s @
          [\<lparr>proj_position = add (base_position twr) (Vector3 0 0.5 0),
            direction = normalize (subtract (mesh_position tgt)
                          (add (base_position twr) (Vector3 0 0.5 0))),
            proj_speed = 2.2, proj_damage = damage (tower_type twr),
            proj_target = enemy_id tgt, life = 0, proj_type = tower_type twr\<rparr>]) \<and>
   (projectiles (towerStep t twr s) = projectiles s \<or>
    (\<exists>e \<in> set (enemies s).
       projectiles (towerStep t twr s) =
         projectiles s @
           [\<lparr>proj_position = add (base_position twr) (Vector3 0 0.5 0),
             direction = normalize (subtract (mesh_position e)
                           (add (base_position twr) (Vector3 0 0.5 0))),
             proj_speed = 2.2, proj_damage = damage (tower_type twr),
             proj_target = enemy_id e, life = 0, proj_type = tower_type twr\<rparr>])) \<and>
   direction (advance p) = direction p \<and>
   proj_speed (advance p) = proj_speed p \<and>
   proj_position (advance p) = add (proj_position p) (scale (direction p) (proj_speed p)) \<and>
   direction ((advance ^^ n) p) = direction p \<and>
   proj_position ((advance ^^ n) p) =
     add (proj_position p) (scale (direction p) (real n * proj_speed p)) \<and>
   (\<not> isPaused s \<longrightarrow>
      set (projectiles (updateProjectiles s)) \<subseteq> advance ` set (projectiles s)) \<and>
   (\<not> isPaused s \<longrightarrow>
      projectiles (updateProjectiles s) =
        map advance
          (filter (\<lambda>q. hitTarget (enemies s) (advance q) = None \<and> life q < 100)
             (projectiles s))) \<and>
   (\<not> isPaused s \<longrightarrow>
      projectiles (tick tE tT rnd s) =
        map advance
          (filter (\<lambda>q. hitTarget (enemies (updateEnemies tE s)) (advance q) = None \<and>
                        life q < 100)
             (projectiles (updateTowers tT (updateEnemies tE s))))) \<and>
   take (length (projectiles s)) (projectiles (updateTowers tT (updateEnemies tE s))) =
     projectiles s"
  using fireProjectile_projectiles [of twr tgt s] towerStep_projectiles [of t twr s]
    advance_n_position [of n p] updateProjectiles_subset [of s]
    updateProjectiles_exact [of s] tick_projectiles [of s tE tT rnd]
    tick_old_projectiles [of s tT tE]
  by simp

lemma overtaken_eval:
  "\<not> isPaused overtaken" "projectiles overtaken = [shot]"
  "map mesh_position (enemies overtaken) = [Vector3 (-345) 1 55]"
  "hitTarget (enemies overtaken) (advance shot) = None" "life shot < 100"
  by (simp_all add: overtaken_def initialGame_def walkerAt_def walker_def enemyData_def shot_def
      hitTarget_def advance_def hit_radius vec_simps)

lemma overtaken_frame:
  "projectiles (updateTowers 0 (updateEnemies 0 overtaken)) = [shot]"
  "hitTarget (enemies (updateEnemies 0 overtaken)) (advance shot) = None"
  by (simp_all add: overtaken_def initialGame_def walkerAt_def walker_def enemyData_def shot_def
      hitTarget_def advance_def hit_radius vec_simps updateEnemies_def enemyStep_def
      moveAlongPath_def enemyShoot_def updateTowers_def createEnhancedPath_def pathPoints_def
      Let_def)

theorem direction_fixed_at_fire_time_witness:
  "tower_target (guard\<lparr>tower_target := Some (walker\<lparr>mesh_position := Vector3 (-351) 1 49\<rparr>)\<rparr>)
     = Some (walker\<lparr>mesh_position := Vector3 (-351) 1 49\<rparr>) \<and>
   \<not> isPaused initialGame \<and>
   projectiles (fireProjectile
     (guard\<lparr>tower_target := Some (walker\<lparr>mesh_position := Vector3 (-351) 1 49\<rparr>)\<rparr>) initialGame)
     = [shot] \<and>
   direction shot = normalize (subtract (Vector3 (-351) 1 49) (Vector3 (-350) 1.5 50)) \<and>
   direction ((advance ^^ 3) shot) = Vector3 (- (2 / 3)) (- (1 / 3)) (- (2 / 3)) \<and>
   proj_position ((advance ^^ 3) shot) = Vector3 (-354.4) (-0.7) 45.6 \<and>
   \<not> isPaused overtaken \<and> projectiles overtaken = [shot] \<and>
   map mesh_position (enemies overtaken) = [Vector3 (-345) 1 55] \<and>
   projectiles (updateProjectiles overtaken) = [advance shot] \<and>
   projectiles (tick 0 0 1 overtaken) = [advance shot] \<and>
   direction (advance shot) = Vector3 (- (2 / 3)) (- (1 / 3)) (- (2 / 3)) \<and>
   proj_position (advance shot) = Vector3 (- (5272 / 15)) (23 / 30) (728 / 15)"
proof -
  let ?tgt = "walker\<lparr>mesh_position := Vector3 (-351) 1 49\<rparr>"
  let ?twr = "guard\<lparr>tower_target := Some ?tgt\<rparr>"
  note T = direction_fixed_at_fire_time [of ?twr ?tgt overtaken 0 shot 3 0 0 1]
  have h: "tower_target ?twr = Some ?tgt" "\<not> isPaused initialGame"
    by (simp_all add: initialGame_def)
  have d: "direction shot = normalize (subtract (Vector3 (-351) 1 49) (Vector3 (-350) 1.5 50))"
    by (simp add: shot_def normalize_def vlength_def vec_simps sqrt_nine_quarters Let_def)
  from direction_fixed_at_fire_time [of ?twr ?tgt initialGame 0 shot 3 0 0 1] h
  have "projectiles (fireProjectile ?twr initialGame) =
          projectiles initialGame @
            [\<lparr>proj_position = add (base_position ?twr) (Vector3 0 0.5 0),
              direction = normalize (subtract (mesh_position ?tgt)
                            (add (base_position ?twr) (Vector3 0 0.5 0))),
              proj_speed = 2.2, proj_damage = damage (tower_type ?twr),
              proj_target = enemy_id ?tgt, life = 0, proj_type = tower_type ?twr\<rparr>]"
    by blast
  then have f: "projectiles (fireProjectile ?twr initialGame) = [shot]"
    by (simp add: guard_def createTower_def walker_def enemyData_def shot_def
        initialGame_def normalize_def vlength_def vec_simps sqrt_nine_quarters Let_def)
  from T have "direction ((advance ^^ 3) shot) = direction shot" by blast
  then have a: "direction ((advance ^^ 3) shot) = Vector3 (- (2 / 3)) (- (1 / 3)) (- (2 / 3))"
    by (simp add: shot_def)
  from T have "proj_position ((advance ^^ 3) shot) =
      add (proj_position shot) (scale (direction shot) (real 3 * proj_speed shot))" by blast
  then have b: "proj_position ((advance ^^ 3) shot) = Vector3 (-354.4) (-0.7) 45.6"
    by (simp add: shot_def vec_simps)
  have o: "\<not> isPaused overtaken" "projectiles overtaken = [shot]"
    "map mesh_position (enemies overtaken) = [Vector3 (-345) 1 55]"
    using overtaken_eval by simp_all
  from T o(1) have "projectiles (updateProjectiles overtaken) =
      map advance (filter (\<lambda>q. hitTarget (enemies overtaken) (advance q) = None \<and> life q < 100)
        (projectiles overtaken))" by blast
  then have c: "projectiles (updateProjectiles overtaken) = [advance shot]"
    using overtaken_eval(2,4,5) by simp
  from T o(1) have "projectiles (tick 0 0 1 overtaken) =
      map advance
        (filter (\<lambda>q. hitTarget (enemies (updateEnemies 0 overtaken)) (advance q) = None \<and>
                      life q < 100)
           (projectiles (updateTowers 0 (updateEnemies 0 overtaken))))" by blast
  then have e: "projectiles (tick 0 0 1 overtaken) = [advance shot]"
    using overtaken_frame overtaken_eval(5) by simp
  from T have "direction (advance shot) = direction shot"
    "proj_position (advance shot) = add (proj_position shot) (scale (direction shot) (proj_speed shot))"
    by blast+
  then have g: "direction (advance shot) = Vector3 (- (2 / 3)) (- (1 / 3)) (- (2 / 3))"
    "proj_position (advance shot) = Vector3 (- (5272 / 15)) (23 / 30) (728 / 15)"
    by (simp_all add: shot_def vec_simps)
  from h d f a b o c e g show ?thesis by blast
qed

text \<open>
  Claim C7: a defender's projectile that never passes the hit test is removed exactly
  when its age exceeds 100, that is in its 101st frame, without damage and without any
  effect.
  \<^item> When no projectile of a frame hits, \<^verbatim>\<open>updateProjectiles\<close> changes nothing but the
    projectile list (attackers and effects are as before): each projectile is stepped
    and kept iff its new age is at most 100.
  \<^item> Whatever the other projectiles do, a projectile that misses in a frame is in the
    list after the frame iff its age before the frame was below 100, and its own step
    leaves attackers and effects alone.
  \<^item> After a pass the list holds no projectile older than 100.
  \<^item> The age grows by one per step, from 0 at fire time: after \<open>n\<close> frames it is \<open>n\<close>,
    so the frame that removes a projectile that never hits is the 101st.
\<close>

theorem projectile_expires_after_100_ticks:
  "(\<not> isPaused s \<and>
    list_all (\<lambda>p. hitTarget (enemies s) (advance p) = None) (projectiles s) \<longrightarrow>
      updateProjectiles s =
        s\<lparr>projectiles := filter (\<lambda>p. life p \<le> 100) (map advance (projectiles s))\<rparr>) \<and>
   (\<not> isPaused s \<and> p \<in> set (projectiles s) \<and> hitTarget (enemies s) (advance p) = None \<longrightarrow>
      (advance p \<in> set (projectiles (updateProjectiles s)) \<longleftrightarrow> life p < 100)) \<and>
   (hitTarget (enemies s) (advance p) = None \<longrightarrow>
      enemies (projectileStep p s) = enemies s \<and> effects (projectileStep p s) = effects s) \<and>
   (\<not> isPaused s \<longrightarrow>
      list_all (\<lambda>p. life p \<le> 100) (projectiles (updateProjectiles s))) \<and>
   life (advance p) = life p + 1 \<and>
   life ((advance ^^ n) p) = life p + n"
  using updateProjectiles_miss [of s] updateProjectiles_ttl [of s] miss_survives_iff [of s p]
    projectileStep_miss_harmless [of s p]
  by simp

theorem projectile_expires_after_100_ticks_witness:
  "\<not> isPaused (scenarioB\<lparr>projectiles := [stray 100, stray 99]\<rparr>) \<and>
   list_all (\<lambda>p. hitTarget (enemies (scenarioB\<lparr>projectiles := [stray 100, stray 99]\<rparr>)) (advance p) = None)
     (projectiles (scenarioB\<lparr>projectiles := [stray 100, stray 99]\<rparr>)) \<and>
   updateProjectiles (scenarioB\<lparr>projectiles := [stray 100, stray 99]\<rparr>) =
     scenarioB\<lparr>projectiles := [advance (stray 99)]\<rparr> \<and>
   stray 100 \<in> set (projectiles (scenarioB\<lparr>projectiles := [stray 100, stray 99]\<rparr>)) \<and>
   hitTarget (enemies (scenarioB\<lparr>projectiles := [stray 100, stray 99]\<rparr>)) (advance (stray 100)) = None \<and>
   advance (stray 100) \<notin>
     set (projectiles (updateProjectiles (scenarioB\<lparr>projectiles := [stray 100, stray 99]\<rparr>))) \<and>
   life (advance (stray 99)) = 100 \<and>
   life (advance (stray 100)) = 101 \<and>
   life ((advance ^^ 101) shot) = 101"
proof -
  let ?s = "scenarioB\<lparr>projectiles := [stray 100, stray 99]\<rparr>"
  note T = projectile_expires_after_100_ticks [of ?s "stray 100" 101]
  have p: "\<not> isPaused ?s" by (simp add: scenarioB_def initialGame_def)
  have m: "list_all (\<lambda>p. hitTarget (enemies ?s) (advance p) = None) (projectiles ?s)"
    by (simp add: scenarioB_def initialGame_def hitTarget_def stray_def shot_def walker_def
        enemyData_def advance_def hit_radius vec_simps)
  then have m1: "hitTarget (enemies ?s) (advance (stray 100)) = None" by simp
  have i: "stray 100 \<in> set (projectiles ?s)" by simp
  from T p m have "updateProjectiles ?s =
      ?s\<lparr>projectiles := filter (\<lambda>p. life p \<le> 100) (map advance (projectiles ?s))\<rparr>"
    by blast
  then have u: "updateProjectiles ?s = scenarioB\<lparr>projectiles := [advance (stray 99)]\<rparr>"
    by (simp add: stray_def)
  from T p i m1 have "advance (stray 100) \<in> set (projectiles (updateProjectiles ?s))
      \<longleftrightarrow> life (stray 100) < 100" by blast
  then have g: "advance (stray 100) \<notin> set (projectiles (updateProjectiles ?s))"
    by (simp add: stray_def)
  have l: "life (advance (stray 99)) = 100" "life (advance (stray 100)) = 101"
    by (simp_all add: stray_def)
  from projectile_expires_after_100_ticks [of ?s shot 101]
  have "life ((advance ^^ 101) shot) = life shot + 101" by blast
  then have n: "life ((advance ^^ 101) shot) = 101" by (simp add: shot_def)
  from p m u i m1 g l n show ?thesis by blast
qed


section \<open>A basic tower against an attacker of health 60\<close>

text \<open>Four frames of \<open>scenarioB\<close>, evaluated. The tower fires in the frames at 1000, 2001
  and 3002 (each time more than 900 after its last shot) and each projectile hits in
  the frame it is fired; the attacker answers once, at 2001. The frame at 3018 finds
  the attacker at health -15, removes it and pays its reward of 15.\<close>

lemma sqrt_one_quarter: "sqrt (1 / 4) = 1 / 2"
  by (rule real_sqrt_unique) (simp_all add: power2_eq_square)

lemmas run_defs = tick_def updateEnemies_def enemyStep_def moveAlongPath_def enemyShoot_def
  fireEnemyProjectile_def updateTowers_def towerStep_def fireProjectile_def
  updateProjectiles_def projectileStep_def advance_def hitTarget_def
  updateEnemyProjectiles_def enemyProjectileStep_def advanceEnemyProjectile_def
  spawnEnemies_def checkWaveComplete_def normalize_def vlength_def

lemmas scenarioB_defs = scenarioB_def guard_def walker_def createTower_def enemyData_def
  initialGame_def createEnhancedPath_def pathPoints_def

lemma tick1:
  "tick 1000 1000 0 scenarioB =
     scenarioB\<lparr>towers := [guard\<lparr>lastFired := 1000,
                   tower_target := Some (walkerAt 0.49 (-351) 49 60 0)\<rparr>],
               enemies := [walkerAt 0.49 (-351) 49 35 0],
               effects := [HitParticles (Vector3 (-351) 1 49)]\<rparr>"
  by (simp add: run_defs scenarioB_defs walkerAt_def Let_def Distance_less_iff hit_radius vec_simps
      sqrt_nine_quarters sqrt_one_quarter)

lemma tick2:
  "tick 2001 2001 0 (tick 1000 1000 0 scenarioB) =
     scenarioB\<lparr>towers := [guard\<lparr>lastFired := 2001,
                   tower_target := Some (walkerAt 0.50 (-350) 50 35 2001)\<rparr>],
               enemies := [walkerAt 0.50 (-350) 50 10 2001],
               effects := [HitParticles (Vector3 (-351) 1 49), HitParticles (Vector3 (-350) 1 50),
                           EnemyBombParticles (Vector3 (-350) 0 50)]\<rparr>"
  unfolding tick1
  by (simp add: run_defs scenarioB_defs walkerAt_def Let_def Distance_less_iff hit_radius vec_simps
      sqrt_nine_quarters sqrt_one_quarter)

lemma tick3:
  "tick 3002 3002 0 (tick 2001 2001 0 (tick 1000 1000 0 scenarioB)) =
     scenarioB\<lparr>towers := [guard\<lparr>lastFired := 3002,
                   tower_target := Some (walkerAt 0.51 (-349) 51 10 2001)\<rparr>],
               enemies := [walkerAt 0.51 (-349) 51 (-15) 2001],
               effects := [HitParticles (Vector3 (-351) 1 49), HitParticles (Vector3 (-350) 1 50),
                           EnemyBombParticles (Vector3 (-350) 0 50), HitParticles (Vector3 (-349) 1 51)]\<rparr>"
  unfolding tick2
  by (simp add: run_defs scenarioB_defs walkerAt_def Let_def Distance_less_iff hit_radius vec_simps
      sqrt_nine_quarters sqrt_one_quarter)

lemma tick4:
  "tick 3018 3018 0 (tick 3002 3002 0 (tick 2001 2001 0 (tick 1000 1000 0 scenarioB))) =
     scenarioB\<lparr>towers := [guard\<lparr>lastFired := 3002\<rparr>],
               enemies := [], gold := 615, score := 225,
               effects := [HitParticles (Vector3 (-351) 1 49), HitParticles (Vector3 (-350) 1 50),
                           EnemyBombParticles (Vector3 (-350) 0 50), HitParticles (Vector3 (-349) 1 51)]\<rparr>"
  unfolding tick3
  by (simp add: run_defs scenarioB_defs walkerAt_def Let_def Distance_less_iff hit_radius vec_simps
      sqrt_nine_quarters sqrt_one_quarter)

lemma fire_gate:
  "projectiles (towerStep t twr s) \<noteq> projectiles s \<Longrightarrow>
   fireRate (tower_type twr) < t - lastFired twr"
  by (auto simp add: towerStep_def Let_def split: if_splits)













section \<open>Gold and lives\<close>

lemma doubleClick_requests:
  "run (take 7 doubleClick) initialGame =
     initialGame\<lparr>selectedTowerType := colony, gold := 200,
       colonies := [Vector3 0 0.1 0, Vector3 20 0.1 0],
       pending := [PendingColony (Vector3 40 0 0) 200, PendingColony (Vector3 40 0 0) 200]\<rparr>"
  by (simp add: doubleClick_def selectTowerType_def placeTowerAtCrosshair_def placeTower_def
      resume_def createColony_def validPosition_def initialGame_def createEnhancedPath_def
      pathPoints_def Distance_less_iff vec_simps Let_def)

text \<open>
  Claim C3: in every state reachable from the initial state (gold 600, lives 25) by
  placements, player attacks, frames and \<^verbatim>\<open>startNextWave\<close>, gold and lives are at
  least 0, every debit being checked against the balance first.

  \<^verbatim>\<open>placeTower\<close> does compare gold with the cost, but for a colony and for a tower the
  debit comes after the \<^verbatim>\<open>await\<close> of the model load, so a request made while an
  earlier one is still loading passes the same check on the same balance. (The branch
  of the player attack debits before it waits.) In the run \<open>doubleClick\<close> the player
  has 200 gold left after two colonies and clicks twice for a third: after the two
  requests gold is still 200 and two loads are pending; when both have completed there
  are four colonies, the last two on the same spot, and gold is -200.
\<close>

theorem placement_race_overdraws:
  "gold initialGame = 600 \<and>
   gold (run (take 7 doubleClick) initialGame) = 200 \<and>
   length (pending (run (take 7 doubleClick) initialGame)) = 2 \<and>
   gold (run doubleClick initialGame) = -200 \<and>
   colonies (run doubleClick initialGame) =
     [Vector3 0 0.1 0, Vector3 20 0.1 0, Vector3 40 0.1 0, Vector3 40 0.1 0]"
proof -
  have "run doubleClick initialGame =
          run (drop 7 doubleClick) (run (take 7 doubleClick) initialGame)"
    by (simp add: doubleClick_def)
  also have "\<dots> = initialGame\<lparr>selectedTowerType := colony, gold := -200,
       colonies := [Vector3 0 0.1 0, Vector3 20 0.1 0, Vector3 40 0.1 0, Vector3 40 0.1 0]\<rparr>"
    unfolding doubleClick_requests
    by (simp add: doubleClick_def resume_def createColony_def setY_def initialGame_def)
  finally show ?thesis
    using doubleClick_requests by (simp add: initialGame_def)
qed

text \<open>Lives: a pass of \<^verbatim>\<open>updateEnemies\<close> takes one life per attacker at the final
  waypoint and does not stop at zero, so with one life left and two such attackers the
  pass ends at -1 (the reload it has asked for comes after the frame). Up to that
  frame lives are positive: in every state reachable from the initial one, lives are
  above 0 or the game-over branch has run.\<close>

lemma lives_below_zero_in_one_pass:
  "lives (updateEnemies 0 (arrivals\<lparr>lives := 1\<rparr>)) = -1 \<and>
   reloadRequested (updateEnemies 0 (arrivals\<lparr>lives := 1\<rparr>))"
  by (simp add: updateEnemies_def enemyStep_def arrivals_def initialGame_def enemyData_def
      createEnhancedPath_def pathPoints_def moveAlongPath_def enemyShoot_def Let_def vec_simps)

lemma reload_keeps [simp]:
  "reloadRequested (fireEnemyProjectile e s) = reloadRequested s"
  "reloadRequested (enemyShoot t e s) = reloadRequested s"
  "reloadRequested (fireProjectile twr s) = reloadRequested s"
  "reloadRequested (towerStep t twr s) = reloadRequested s"
  "reloadRequested (projectileStep p s) = reloadRequested s"
  "reloadRequested (enemyProjectileStep q s) = reloadRequested s"
  "reloadRequested (spawnEnemies rnd s) = reloadRequested s"
  "reloadRequested (checkWaveComplete s) = reloadRequested s"
  "lives (checkWaveComplete s) = lives s"
  by (simp_all add: fireEnemyProjectile_def enemyShoot_def fireProjectile_def towerStep_def
      projectileStep_def enemyProjectileStep_def spawnEnemies_def spawnEnemy_def
      checkWaveComplete_def Let_def split: option.splits)

lemma reload_keeps_loops [simp]:
  "reloadRequested (updateTowers t s) = reloadRequested s"
  "reloadRequested (updateProjectiles s) = reloadRequested s"
  "reloadRequested (updateEnemyProjectiles s) = reloadRequested s"
  by (simp_all add: updateTowers_def updateProjectiles_def updateEnemyProjectiles_def
      towerLoop_keeps foldr_keeps)

lemma enemyStep_alive:
  "0 < lives s \<or> reloadRequested s \<Longrightarrow>
   0 < lives (enemyStep t e s) \<or> reloadRequested (enemyStep t e s)"
  by (auto simp add: enemyStep_def Let_def)

lemma enemyLoop_alive:
  "0 < lives s \<or> reloadRequested s \<Longrightarrow>
   0 < lives (foldr (enemyStep t) es s) \<or> reloadRequested (foldr (enemyStep t) es s)"
  by (induction es) (simp_all add: enemyStep_alive)

lemma updateEnemies_alive:
  "0 < lives s \<or> reloadRequested s \<Longrightarrow>
   0 < lives (updateEnemies t s) \<or> reloadRequested (updateEnemies t s)"
  using enemyLoop_alive [of "s\<lparr>enemies := []\<rparr>" t "enemies s"]
  by (simp add: updateEnemies_def)

lemma resumePending_alive:
  "lives (resumePending c s) = lives s \<and> reloadRequested (resumePending c s) = reloadRequested s"
proof (cases c)
  case PendingAttack
  have "lives (foldr strikeEnemy es s') = lives s' \<and>
        reloadRequested (foldr strikeEnemy es s') = reloadRequested s'" for es s'
    by (induction es) (simp_all add: strikeEnemy_def)
  then show ?thesis using PendingAttack by (simp add: playerAttackStrike_def)
qed (simp_all split: list.splits)

lemma placeTower_alive:
  "lives (snd (placeTower position s)) = lives s \<and>
   reloadRequested (snd (placeTower position s)) = reloadRequested s"
  by (simp add: placeTower_def activatePlayerAttack_def Let_def split: itemKind.splits)

lemma exec_alive:
  assumes "0 < lives s \<or> reloadRequested s"
  shows "0 < lives (exec c s) \<or> reloadRequested (exec c s)"
proof (cases c)
  case (Tick tE tT rnd)
  then show ?thesis using assms updateEnemies_alive [of s tE]
    by (simp add: tick_def)
next
  case (Resume i)
  then show ?thesis using assms resumePending_alive
    by (simp add: resume_def)
next
  case (SelectTowerType ty hit)
  then show ?thesis using assms placeTower_alive
    by (simp add: selectTowerType_def placeTowerAtCrosshair_def Let_def split: option.splits)
next
  case (PlaceTowerAtCrosshair hit)
  then show ?thesis using assms placeTower_alive
    by (simp add: placeTowerAtCrosshair_def split: option.splits)
qed (insert assms, simp_all add: startNextWave_def togglePause_def abandon_def)

lemma run_alive:
  "0 < lives s \<or> reloadRequested s \<Longrightarrow> 0 < lives (run cs s) \<or> reloadRequested (run cs s)"
  by (induction cs arbitrary: s) (simp_all add: exec_alive)

lemma lives_positive_until_game_over:
  "0 < lives (run cs initialGame) \<or> reloadRequested (run cs initialGame)"
  by (rule run_alive) (simp add: initialGame_def)

end
